theory Spec2Isabelle
  imports Complex_Main
begin

section \<open>JavaScript values and strings\<close>

text \<open>
  A string is a list of code units; the model covers the code units below 256. A candidate
  value handed to a validator is any JavaScript value: the primitives, arrays, and \<open>JObj\<close>
  for a plain object. Numbers are the finite ones, as rationals.
\<close>

datatype jsvalue =
    JUndefined
  | JNull
  | JBool bool
  | JNum rat
  | JStr string
  | JArr "jsvalue list"
  | JObj

text \<open>\<open>WhiteSpace\<close> and \<open>LineTerminator\<close> of ECMAScript, below 256.\<close>

definition isWhiteSpace :: "char \<Rightarrow> bool" where
  "isWhiteSpace c = ((of_char c :: nat) \<in> {9, 10, 11, 12, 13, 32, 160})"

text \<open>\<open>String.prototype.trim\<close>.\<close>

definition trim :: "string \<Rightarrow> string" where
  "trim s = rev (dropWhile isWhiteSpace (rev (dropWhile isWhiteSpace s)))"

text \<open>
  \<open>GetSubstitution\<close> of ECMAScript for a match without capture groups: in the
  replacement text, \<open>$$\<close> stands for a dollar sign, \<open>$&\<close> for the matched text,
  \<open>$`\<close> for the text before the match and \<open>$'\<close> for the text after it; a dollar
  sign followed by anything else stands for itself.
\<close>

fun GetSubstitution :: "string \<Rightarrow> string \<Rightarrow> string \<Rightarrow> string \<Rightarrow> string" where
  "GetSubstitution matched pre post [] = []"
| "GetSubstitution matched pre post [c] = [c]"
| "GetSubstitution matched pre post (c # d # cs) =
     (if c \<noteq> CHR ''$'' then c # GetSubstitution matched pre post (d # cs)
      else if d = CHR ''$'' then CHR ''$'' # GetSubstitution matched pre post cs
      else if d = CHR ''&'' then matched @ GetSubstitution matched pre post cs
      else if d = CHR 0x60 then pre @ GetSubstitution matched pre post cs
      else if d = CHR 0x27 then post @ GetSubstitution matched pre post cs
      else c # GetSubstitution matched pre post (d # cs))"

text \<open>
  \<open>s.replace(pat, rep)\<close> with a string pattern: the first occurrence of \<open>pat\<close> is
  replaced by the substitution of \<open>rep\<close>, and only that one. \<open>replace_from\<close> walks
  the string, with the text already passed as its first argument.
\<close>

fun replace_from :: "string \<Rightarrow> string \<Rightarrow> string \<Rightarrow> string \<Rightarrow> string" where
  "replace_from pre [] pat rep = (if pat = [] then GetSubstitution [] pre [] rep else [])"
| "replace_from pre (c # cs) pat rep =
     (if take (length pat) (c # cs) = pat
      then GetSubstitution pat pre (drop (length pat) (c # cs)) rep @ drop (length pat) (c # cs)
      else c # replace_from (pre @ [c]) cs pat rep)"

definition js_replace :: "string \<Rightarrow> string \<Rightarrow> string \<Rightarrow> string" where
  "js_replace s pat rep = replace_from [] s pat rep"

text \<open>\<open>xs.join(sep)\<close> on an array of strings.\<close>

fun join :: "string \<Rightarrow> string list \<Rightarrow> string" where
  "join sep [] = []"
| "join sep [x] = x"
| "join sep (x # y # ys) = x @ sep @ join sep (y # ys)"

text \<open>
  \<open>String(n)\<close> for an integral number: its decimal digits (as JavaScript writes every
  integer below \<open>10^21\<close>).
\<close>

definition digit_char :: "nat \<Rightarrow> char" where
  "digit_char n = char_of (48 + n)"

fun digits :: "nat \<Rightarrow> string" where
  "digits n = (if n < 10 then [digit_char n] else digits (n div 10) @ [digit_char (n mod 10)])"

declare digits.simps [simp del]

definition String_int :: "int \<Rightarrow> string" where
  "String_int i = (if i < 0 then CHR ''-'' # digits (nat (- i)) else digits (nat i))"

text \<open>\<open>fieldName.replace(/([A-Z])/g, ' $1').toLowerCase()\<close>.\<close>

definition isUpperAZ :: "char \<Rightarrow> bool" where
  "isUpperAZ c = (65 \<le> (of_char c :: nat) \<and> (of_char c :: nat) \<le> 90)"

definition toLowerCase_char :: "char \<Rightarrow> char" where
  "toLowerCase_char c =
     (let n = (of_char c :: nat)
      in if (65 \<le> n \<and> n \<le> 90) \<or> (192 \<le> n \<and> n \<le> 222 \<and> n \<noteq> 215) then char_of (n + 32) else c)"

definition toLowerCase :: "string \<Rightarrow> string" where
  "toLowerCase s = map toLowerCase_char s"

definition space_before_capitals :: "string \<Rightarrow> string" where
  "space_before_capitals s = concat (map (\<lambda>c. if isUpperAZ c then [CHR '' '', c] else [c]) s)"

text \<open>\<open>a || b\<close> on an optional string: an absent and an empty string are both falsy.\<close>

definition js_or :: "string option \<Rightarrow> string \<Rightarrow> string" where
  "js_or a b = (case a of None \<Rightarrow> b | Some s \<Rightarrow> if s = [] then b else s)"

section \<open>Calendar dates (date-fns and \<open>Date\<close>)\<close>

text \<open>
  A \<open>Date\<close> is either invalid or a point in time, held by its components in local time:
  year, month (1 to 12), day of the month and millisecond of the day. The year is the one
  \<open>getFullYear\<close> returns: year 0 is 1 BC, year -2024 is 2025 BC. Two valid dates are
  compared by these components, which is the order of their time values as long as local
  time runs forward.
\<close>

datatype jsdate = InvalidDate | Date (year: int) (month: nat) (day: nat) (msec: nat)

definition isValid :: "jsdate \<Rightarrow> bool" where
  "isValid d = (d \<noteq> InvalidDate)"

definition isLeapYear :: "int \<Rightarrow> bool" where
  "isLeapYear y = (y mod 400 = 0 \<or> (y mod 4 = 0 \<and> y mod 100 \<noteq> 0))"

definition daysInMonth :: "int \<Rightarrow> nat \<Rightarrow> nat" where
  "daysInMonth y m =
     (if m = 2 then (if isLeapYear y then 29 else 28)
      else if m = 4 \<or> m = 6 \<or> m = 9 \<or> m = 11 then 30 else 31)"

definition valid_ymd :: "int \<Rightarrow> nat \<Rightarrow> nat \<Rightarrow> bool" where
  "valid_ymd y m d = (1 \<le> m \<and> m \<le> 12 \<and> 1 \<le> d \<and> d \<le> daysInMonth y m)"

text \<open>
  A real calendar day with a time of day, in a year that \<open>yyyy\<close> writes with four
  digits.
\<close>

fun proper_date :: "jsdate \<Rightarrow> bool" where
  "proper_date InvalidDate = False"
| "proper_date (Date y m d ms) = (- 9998 \<le> y \<and> y \<le> 9999 \<and> valid_ymd y m d \<and> ms < 86400000)"

text \<open>\<open>startOfDay\<close>, \<open>isEqual\<close> and the comparison \<open>a >= b\<close> of two dates.\<close>

fun startOfDay :: "jsdate \<Rightarrow> jsdate" where
  "startOfDay InvalidDate = InvalidDate"
| "startOfDay (Date y m d ms) = Date y m d 0"

fun isEqual :: "jsdate \<Rightarrow> jsdate \<Rightarrow> bool" where
  "isEqual (Date y m d ms) (Date y' m' d' ms') = (y = y' \<and> m = m' \<and> d = d' \<and> ms = ms')"
| "isEqual _ _ = False"

fun date_ge :: "jsdate \<Rightarrow> jsdate \<Rightarrow> bool" where
  "date_ge (Date y m d ms) (Date y' m' d' ms') =
     (y > y' \<or> (y = y' \<and> (m > m' \<or> (m = m' \<and> (d > d' \<or> (d = d' \<and> ms \<ge> ms'))))))"
| "date_ge _ _ = False"

text \<open>
  \<open>getDay\<close>: the day of the week, Sunday 0 to Saturday 6, from the number of days since
  1970-01-01 (a Thursday) in the proleptic Gregorian calendar.
\<close>

definition days_from_civil :: "int \<Rightarrow> nat \<Rightarrow> nat \<Rightarrow> int" where
  "days_from_civil y m d =
     (let y' = y - (if m \<le> 2 then 1 else 0);
          era = y' div 400;
          yoe = y' - era * 400;
          mp = (int m + 9) mod 12;
          doy = (153 * mp + 2) div 5 + int d - 1;
          doe = yoe * 365 + yoe div 4 - yoe div 100 + doy
      in era * 146097 + doe - 719468)"

fun getDay :: "jsdate \<Rightarrow> nat" where
  "getDay InvalidDate = 0"
| "getDay (Date y m d ms) = nat ((days_from_civil y m d + 4) mod 7)"

text \<open>
  \<open>format(date, 'yyyy-MM-dd')\<close> on the components of a valid date. The token \<open>yyyy\<close>
  writes the year of the era, not the signed year: \<open>y\<close> for a year above 0 and
  \<open>1 - y\<close> otherwise (1 BC is year 0 and is written 1), padded with zeros to four
  digits; month and day are padded to two.
\<close>

definition eraYear :: "int \<Rightarrow> nat" where
  "eraYear y = (if y > 0 then nat y else nat (1 - y))"

definition addLeadingZeros :: "nat \<Rightarrow> nat \<Rightarrow> string" where
  "addLeadingZeros n len = replicate (len - length (digits n)) (CHR ''0'') @ digits n"

definition format_yyyy_MM_dd :: "int \<Rightarrow> nat \<Rightarrow> nat \<Rightarrow> string" where
  "format_yyyy_MM_dd y m d =
     addLeadingZeros (eraYear y) 4 @ ''-'' @ addLeadingZeros m 2 @ ''-'' @ addLeadingZeros d 2"

text \<open>
  \<open>parseISO\<close> on a complete calendar date \<open>YYYY-MM-DD\<close>: local midnight of that day, or
  an invalid date when there is no such day. \<open>None\<close> when the string has another form.
\<close>

definition isDigit :: "char \<Rightarrow> bool" where
  "isDigit c = (48 \<le> (of_char c :: nat) \<and> (of_char c :: nat) \<le> 57)"

definition digitVal :: "char \<Rightarrow> nat" where
  "digitVal c = of_char c - 48"

definition parse_calendar_date :: "string \<Rightarrow> jsdate option" where
  "parse_calendar_date s =
     (case s of
        [y1, y2, y3, y4, s1, m1, m2, s2, d1, d2] \<Rightarrow>
          (if isDigit y1 \<and> isDigit y2 \<and> isDigit y3 \<and> isDigit y4 \<and> s1 = CHR ''-''
              \<and> isDigit m1 \<and> isDigit m2 \<and> s2 = CHR ''-'' \<and> isDigit d1 \<and> isDigit d2
           then
             (let y = int (digitVal y1 * 1000 + digitVal y2 * 100 + digitVal y3 * 10 + digitVal y4);
                  m = digitVal m1 * 10 + digitVal m2;
                  d = digitVal d1 * 10 + digitVal d2
              in Some (if valid_ymd y m d then Date y m d 0 else InvalidDate))
           else None)
      | _ \<Rightarrow> None)"

section \<open>yup's formatting of messages\<close>

text \<open>
  yup formats the message of every validation error it creates: each parameter
  \<open>${name}\<close> in the message (the regular expression \<open>/\$\{\s*(\w+)\s*\}/g\<close>) is
  replaced by the printed value of that parameter of the error. \<open>match_param\<close> reads a
  parameter from the text after \<open>${\<close> and returns its name and the text after its
  closing brace; \<open>interpolate\<close> walks the message from left to right.
\<close>

definition isWordChar :: "char \<Rightarrow> bool" where
  "isWordChar c =
     (let n = (of_char c :: nat)
      in (48 \<le> n \<and> n \<le> 57) \<or> (65 \<le> n \<and> n \<le> 90) \<or> (97 \<le> n \<and> n \<le> 122) \<or> n = 95)"

definition match_param :: "string \<Rightarrow> (string \<times> string) option" where
  "match_param s =
     (let s1 = dropWhile isWhiteSpace s;
          name = takeWhile isWordChar s1;
          s2 = dropWhile isWhiteSpace (dropWhile isWordChar s1)
      in case s2 of
           [] \<Rightarrow> None
         | c # rest \<Rightarrow> if name \<noteq> [] \<and> c = CHR ''}'' then Some (name, rest) else None)"

function interpolate :: "(string \<Rightarrow> string) \<Rightarrow> string \<Rightarrow> string" where
  "interpolate params [] = []"
| "interpolate params [c] = [c]"
| "interpolate params (c # d # cs) =
     (if c = CHR ''$'' \<and> d = CHR ''{''
      then (case match_param cs of
              Some (name, rest) \<Rightarrow> params name @ interpolate params rest
            | None \<Rightarrow> c # interpolate params (d # cs))
      else c # interpolate params (d # cs))"
  by pat_completeness auto

termination interpolate
proof (relation "measure (\<lambda>(params, s). length s)", simp_all)
  fix c :: char and cs :: string and x2 :: "string \<times> string" and x y :: string
  assume "c = CHR ''$''" and m: "match_param cs = Some x2" and x2: "(x, y) = x2"
  let ?s2 = "dropWhile isWhiteSpace (dropWhile isWordChar (dropWhile isWhiteSpace cs))"
  from m x2 obtain e where e: "?s2 = e # y"
    by (auto simp add: match_param_def Let_def split: list.splits if_splits)
  have "length ?s2 \<le> length cs"
    by (meson length_dropWhile_le order_trans)
  with e show "length y < Suc (Suc (length cs))"
    by simp
qed

section \<open>The platform\<close>

text \<open>
  A validation error of yup carries the name of the test that failed and a message. The
  names that occur: \<open>Required\<close> for yup's \<open>required\<close> check, \<open>TypeError\<close>,
  \<open>OneOf\<close>, \<open>Min\<close>, \<open>Max\<close> and \<open>Matches\<close> for the tests of the typed schemas,
  and \<open>TestName n\<close> for a test added with \<open>.test({ name: n, ... })\<close>. A test has an
  argument that its error's parameters are made of: the type name, the allowed values,
  the bound, the pattern.
\<close>

datatype err_type = Required | TypeError | OneOf | Min | Max | Matches | TestName string

datatype test_arg =
    NoArg
  | TypeArg string
  | ValuesArg "string list"
  | LengthArg int
  | PatternArg string
  | NumberArg rat
  | DateArg jsdate

text \<open>
  What the program takes from its platform and is not computed here:
  \<^item> \<open>RegExp p\<close>: \<open>new RegExp(p)\<close>; \<open>None\<close> when the constructor throws a
    \<open>SyntaxError\<close>, otherwise the predicate \<open>s.search(re) !== -1\<close>;
  \<^item> \<open>parseISO_other\<close>: \<open>parseISO\<close> of date-fns on a string that is not a complete
    calendar date (a time of day, a week date, an ordinal date, a year with a sign, ...);
  \<^item> \<open>now\<close>: \<open>new Date()\<close>;
  \<^item> \<open>numToString\<close>: \<open>String(n)\<close> and \<open>n.toString()\<close> on a number;
  \<^item> \<open>toNumber\<close>: the cast of yup's number schema followed by its type check; \<open>None\<close>
    when the result is \<open>NaN\<close> or not a number;
  \<^item> \<open>yupParam kind arg fieldName value name\<close>: the text yup prints for the parameter
    \<open>name\<close> of the error of the test \<open>kind\<close> with argument \<open>arg\<close>, raised while
    the field \<open>fieldName\<close> is validated on the candidate \<open>value\<close>.
\<close>

record jslib =
  RegExp :: "string \<Rightarrow> (string \<Rightarrow> bool) option"
  parseISO_other :: "string \<Rightarrow> jsdate"
  now :: jsdate
  numToString :: "rat \<Rightarrow> string"
  toNumber :: "jsvalue \<Rightarrow> rat option"
  yupParam :: "err_type \<Rightarrow> test_arg \<Rightarrow> string \<Rightarrow> jsvalue \<Rightarrow> string \<Rightarrow> string"

definition parseISO :: "jslib \<Rightarrow> string \<Rightarrow> jsdate" where
  "parseISO lib s = (case parse_calendar_date s of Some d \<Rightarrow> d | None \<Rightarrow> parseISO_other lib s)"

text \<open>\<open>ValidationError.formatError\<close>: the message with its parameters printed.\<close>

definition formatError ::
  "jslib \<Rightarrow> err_type \<Rightarrow> test_arg \<Rightarrow> string \<Rightarrow> jsvalue \<Rightarrow> string \<Rightarrow> string" where
  "formatError lib kind arg fieldName value msg =
     interpolate (yupParam lib kind arg fieldName value) msg"

section \<open>holidays.ts\<close>

definition US_HOLIDAYS_2025_STRINGS :: "string list" where
  "US_HOLIDAYS_2025_STRINGS =
     [''2025-01-01'', ''2025-01-20'', ''2025-02-17'', ''2025-05-26'', ''2025-06-19'',
      ''2025-07-04'', ''2025-09-01'', ''2025-10-13'', ''2025-11-11'', ''2025-11-27'',
      ''2025-12-25'']"

definition US_HOLIDAYS_2025 :: "jslib \<Rightarrow> jsdate list" where
  "US_HOLIDAYS_2025 lib = map (parseISO lib) US_HOLIDAYS_2025_STRINGS"

fun isPublicHoliday :: "jslib \<Rightarrow> jsdate \<Rightarrow> bool" where
  "isPublicHoliday lib InvalidDate = False"
| "isPublicHoliday lib (Date y m d ms) =
     (let dateToCheck = parseISO lib (format_yyyy_MM_dd y m d)
      in if \<not> isValid dateToCheck then False
         else list_ex (\<lambda>holiday. isValid holiday \<and> isEqual dateToCheck holiday)
                (US_HOLIDAYS_2025 lib))"

declare isPublicHoliday.simps [simp del]

definition isWeekend :: "jsdate \<Rightarrow> bool" where
  "isWeekend date =
     (if \<not> isValid date then False
      else (let day = getDay date in day = 0 \<or> day = 6))"

section \<open>buildYupSchema.ts: rules and their resolution\<close>

text \<open>
  \<open>JsonRule\<close>, with every optional attribute as an option; \<open>ref\<close> is the attribute
  \<open>$ref\<close>. The attribute \<open>type\<close> is optional too: a rule that only refers to a definition
  has none. Length bounds are integral numbers. \<open>configSection\<close> is the list of its
  entries in iteration order, \<open>definitions\<close> the map of the object's own properties.
\<close>

record JsonRule =
  type :: "string option"
  required :: "bool option"
  minLength :: "int option"
  maxLength :: "int option"
  pattern :: "string option"
  allowedValues :: "string list option"
  minValue :: "rat option"
  maxValue :: "rat option"
  customRule :: "string option"
  minDate :: "string option"
  errorMessageRequired :: "string option"
  errorMessageMinLength :: "string option"
  errorMessageMaxLength :: "string option"
  errorMessagePattern :: "string option"
  errorMessageAllowedValues :: "string option"
  errorMessageType :: "string option"
  errorMessageMinValue :: "string option"
  errorMessageMaxValue :: "string option"
  errorMessageMinDate :: "string option"
  errorMessageCustomRule :: "string option"
  ref :: "string option"

type_synonym JsonFieldConfig = "(string \<times> JsonRule) list"

type_synonym JsonDefinitions = "string \<rightharpoonup> JsonRule"

text \<open>
  \<open>{ ...d, ...r }\<close>: every attribute that \<open>r\<close> has is taken from \<open>r\<close>, every other one
  from \<open>d\<close>.
\<close>

definition own_or :: "'a option \<Rightarrow> 'a option \<Rightarrow> 'a option" where
  "own_or own inherited = (case own of Some v \<Rightarrow> Some v | None \<Rightarrow> inherited)"

definition spread :: "JsonRule \<Rightarrow> JsonRule \<Rightarrow> JsonRule" where
  "spread d r =
     \<lparr>type = own_or (type r) (type d),
      required = own_or (required r) (required d),
      minLength = own_or (minLength r) (minLength d),
      maxLength = own_or (maxLength r) (maxLength d),
      pattern = own_or (pattern r) (pattern d),
      allowedValues = own_or (allowedValues r) (allowedValues d),
      minValue = own_or (minValue r) (minValue d),
      maxValue = own_or (maxValue r) (maxValue d),
      customRule = own_or (customRule r) (customRule d),
      minDate = own_or (minDate r) (minDate d),
      errorMessageRequired = own_or (errorMessageRequired r) (errorMessageRequired d),
      errorMessageMinLength = own_or (errorMessageMinLength r) (errorMessageMinLength d),
      errorMessageMaxLength = own_or (errorMessageMaxLength r) (errorMessageMaxLength d),
      errorMessagePattern = own_or (errorMessagePattern r) (errorMessagePattern d),
      errorMessageAllowedValues = own_or (errorMessageAllowedValues r) (errorMessageAllowedValues d),
      errorMessageType = own_or (errorMessageType r) (errorMessageType d),
      errorMessageMinValue = own_or (errorMessageMinValue r) (errorMessageMinValue d),
      errorMessageMaxValue = own_or (errorMessageMaxValue r) (errorMessageMaxValue d),
      errorMessageMinDate = own_or (errorMessageMinDate r) (errorMessageMinDate d),
      errorMessageCustomRule = own_or (errorMessageCustomRule r) (errorMessageCustomRule d),
      ref = own_or (ref r) (ref d)\<rparr>"

datatype diagnostic = ConsoleWarn string | ConsoleError string

text \<open>
  The members that a plain object inherits from \<open>Object.prototype\<close>. The lookup
  \<open>definitions[refPath]\<close> of line 53 finds them when \<open>definitions\<close> has no property of
  its own with that name: a function (for \<open>__proto__\<close> the prototype object), which is
  truthy and has no enumerable property of its own, so that the spread of line 54 copies
  nothing from it.
\<close>

definition Object_prototype_members :: "string list" where
  "Object_prototype_members =
     [''constructor'', ''hasOwnProperty'', ''isPrototypeOf'', ''propertyIsEnumerable'',
      ''toLocaleString'', ''toString'', ''valueOf'', ''__defineGetter__'', ''__defineSetter__'',
      ''__lookupGetter__'', ''__lookupSetter__'', ''__proto__'']"

text \<open>
  Lines 49 to 60 of \<open>buildYupSchema\<close>: \<open>Inl\<close> is the warning of a field that is skipped
  (\<open>continue\<close>), \<open>Inr\<close> the rule the field is compiled from. An empty \<open>$ref\<close> is falsy
  and leaves the rule as it is.
\<close>

definition resolve_ref :: "JsonDefinitions \<Rightarrow> JsonRule \<Rightarrow> diagnostic + JsonRule" where
  "resolve_ref definitions rules =
     (case ref rules of
        None \<Rightarrow> Inr rules
      | Some r \<Rightarrow>
          if r = [] then Inr rules
          else
            (let refPath = js_replace r ''#/definitions/'' ''''
             in case definitions refPath of
                  Some d \<Rightarrow> Inr ((spread d rules)\<lparr>ref := None\<rparr>)
                | None \<Rightarrow>
                    if refPath \<in> set Object_prototype_members then Inr (rules\<lparr>ref := None\<rparr>)
                    else Inl (ConsoleWarn (''Validation definition not found for $ref: '' @ r))))"

section \<open>yup\<close>

datatype ValidationError = ValidationError (errType: err_type) (message: string)

text \<open>
  What a field validator returns: the validation passed, or it failed with an error of
  yup.
\<close>

datatype outcome = Ok | Fail ValidationError

text \<open>
  A typed schema (\<open>yup.string()\<close>, \<open>yup.number()\<close>, \<open>yup.date()\<close>) as far as the
  program configures one: the name of its type, the message of its type check, the list
  of allowed values set by \<open>oneOf\<close> with its message, and the tests added by \<open>min\<close>,
  \<open>max\<close> and \<open>matches\<close> in the order of the calls.
\<close>

record 'a schema =
  typeName :: string
  typeErrorMessage :: string
  whitelist :: "('a list \<times> test_arg \<times> string) option"
  tests :: "(err_type \<times> test_arg \<times> ('a \<Rightarrow> bool) \<times> string) list"

text \<open>
  The message of a schema whose \<open>typeError\<close> was never called stands for yup's own; the
  program replaces it before every validation.
\<close>

definition yup_schema :: "string \<Rightarrow> 'a schema" where
  "yup_schema name =
     \<lparr>typeName = name, typeErrorMessage = ''this must be a value of the schema type'',
      whitelist = None, tests = []\<rparr>"

definition yup_string :: "string schema" where
  "yup_string = yup_schema ''string''"

definition yup_number :: "rat schema" where
  "yup_number = yup_schema ''number''"

definition yup_date :: "jsdate schema" where
  "yup_date = yup_schema ''date''"

definition typeError :: "string \<Rightarrow> 'a schema \<Rightarrow> 'a schema" where
  "typeError msg s = s\<lparr>typeErrorMessage := msg\<rparr>"

definition add_test ::
  "err_type \<Rightarrow> test_arg \<Rightarrow> ('a \<Rightarrow> bool) \<Rightarrow> string \<Rightarrow> 'a schema \<Rightarrow> 'a schema" where
  "add_test name arg t msg s = s\<lparr>tests := tests s @ [(name, arg, t, msg)]\<rparr>"

definition string_min :: "int \<Rightarrow> string \<Rightarrow> string schema \<Rightarrow> string schema" where
  "string_min n msg s = add_test Min (LengthArg n) (\<lambda>v. int (length v) \<ge> n) msg s"

definition string_max :: "int \<Rightarrow> string \<Rightarrow> string schema \<Rightarrow> string schema" where
  "string_max n msg s = add_test Max (LengthArg n) (\<lambda>v. int (length v) \<le> n) msg s"

text \<open>
  \<open>matches(new RegExp(p), msg)\<close>, with the source \<open>p\<close> of the regular expression and
  its predicate.
\<close>

definition matches :: "string \<Rightarrow> (string \<Rightarrow> bool) \<Rightarrow> string \<Rightarrow> string schema \<Rightarrow> string schema" where
  "matches p re msg s = add_test Matches (PatternArg p) re msg s"

definition oneOf :: "string list \<Rightarrow> string \<Rightarrow> string schema \<Rightarrow> string schema" where
  "oneOf vals msg s = s\<lparr>whitelist := Some (vals, ValuesArg vals, msg)\<rparr>"

definition number_min :: "rat \<Rightarrow> string \<Rightarrow> rat schema \<Rightarrow> rat schema" where
  "number_min n msg s = add_test Min (NumberArg n) (\<lambda>v. v \<ge> n) msg s"

definition number_max :: "rat \<Rightarrow> string \<Rightarrow> rat schema \<Rightarrow> rat schema" where
  "number_max n msg s = add_test Max (NumberArg n) (\<lambda>v. v \<le> n) msg s"

definition date_min :: "jsdate \<Rightarrow> string \<Rightarrow> jsdate schema \<Rightarrow> jsdate schema" where
  "date_min limit msg s = add_test Min (DateArg limit) (\<lambda>v. date_ge v limit) msg s"

text \<open>
  \<open>validateSync\<close> of a typed schema with the default options (\<open>abortEarly\<close>), on the
  cast value, \<open>None\<close> when the cast value is not of the schema's type: \<open>Inl\<close> is the
  validation error it throws, \<open>Inr\<close> the value it returns. \<open>fmt\<close> formats the message
  of the error of a test. The method \<open>_validate\<close> of a yup schema runs in two rounds:
  first the tests the schema keeps apart from its list of tests, which are the type check
  set by \<open>typeError\<close> and then the membership test set by \<open>oneOf\<close>; and only when
  these pass, the list of tests, to which \<open>min\<close>, \<open>max\<close> and \<open>matches\<close> append in
  the order of the calls. So the membership test comes before the length and pattern
  tests also when \<open>oneOf\<close> is called last. The first failure is the error thrown.
\<close>

fun run_tests ::
  "(err_type \<Rightarrow> test_arg \<Rightarrow> string \<Rightarrow> string) \<Rightarrow> (err_type \<times> test_arg \<times> ('a \<Rightarrow> bool) \<times> string) list \<Rightarrow> 'a
     \<Rightarrow> ValidationError + 'a" where
  "run_tests fmt [] v = Inr v"
| "run_tests fmt ((name, arg, t, msg) # ts) v =
     (if t v then run_tests fmt ts v else Inl (ValidationError name (fmt name arg msg)))"

definition validateSync ::
  "(err_type \<Rightarrow> test_arg \<Rightarrow> string \<Rightarrow> string) \<Rightarrow> 'a schema \<Rightarrow> 'a option \<Rightarrow> ValidationError + 'a" where
  "validateSync fmt s cast_value =
     (case cast_value of
        None \<Rightarrow>
          Inl (ValidationError TypeError (fmt TypeError (TypeArg (typeName s)) (typeErrorMessage s)))
      | Some v \<Rightarrow>
          (case whitelist s of
             Some (vals, arg, msg) \<Rightarrow>
               if v \<in> set vals then run_tests fmt (tests s) v
               else Inl (ValidationError OneOf (fmt OneOf arg msg))
           | None \<Rightarrow> run_tests fmt (tests s) v))"

text \<open>
  The cast of \<open>yup.string()\<close> followed by its type check, on a value that is present: a
  string stays, a number or a boolean becomes its \<open>toString()\<close>, an array and a plain
  object are not converted and fail the type check.
\<close>

fun string_cast :: "jslib \<Rightarrow> jsvalue \<Rightarrow> string option" where
  "string_cast lib (JStr s) = Some s"
| "string_cast lib (JNum n) = Some (numToString lib n)"
| "string_cast lib (JBool b) = Some (if b then ''true'' else ''false'')"
| "string_cast lib _ = None"

text \<open>The cast of \<open>yup.date()\<close> on a \<open>Date\<close> object, followed by its type check.\<close>

definition date_cast :: "jsdate \<Rightarrow> jsdate option" where
  "date_cast d = (if isValid d then Some d else None)"

text \<open>
  \<open>yup.mixed().transform(v => isEmpty(v) ? undefined : v).required(msg)\<close> when \<open>req\<close>,
  \<open>yup.mixed().transform(v => isEmpty(v) ? null : v).nullable()\<close> otherwise: the error
  of \<open>required\<close>, with its message formatted, or the cast value handed to the tests that
  follow. yup does not apply a transform to \<open>undefined\<close>.
\<close>

definition baseValidator ::
  "jslib \<Rightarrow> string \<Rightarrow> (jsvalue \<Rightarrow> bool) \<Rightarrow> bool \<Rightarrow> string \<Rightarrow> jsvalue \<Rightarrow> ValidationError + jsvalue" where
  "baseValidator lib fieldName isEmpty req requiredMessage value =
     (let v = (if value = JUndefined then JUndefined
               else if isEmpty value then (if req then JUndefined else JNull)
               else value)
      in if req \<and> (v = JUndefined \<or> v = JNull)
         then Inl (ValidationError Required
                     (formatError lib Required NoArg fieldName value requiredMessage))
         else Inr v)"

text \<open>
  \<open>ctx.createError({ message: msg })\<close> in the test named \<open>testName\<close>: an error with
  the name of the test and the message, which yup formats once more.
\<close>

definition createError :: "jslib \<Rightarrow> string \<Rightarrow> string \<Rightarrow> jsvalue \<Rightarrow> string \<Rightarrow> ValidationError" where
  "createError lib testName fieldName value msg =
     ValidationError (TestName testName)
       (formatError lib (TestName testName) NoArg fieldName value msg)"

section \<open>buildYupSchema.ts: the field validators\<close>

text \<open>
  A compiled field validator maps a candidate value to the diagnostics written to the
  console while it runs and the outcome of the validation.
\<close>

type_synonym validator = "jsvalue \<Rightarrow> diagnostic list \<times> outcome"

definition is_required :: "JsonRule \<Rightarrow> bool" where
  "is_required rules = (required rules = Some True)"

definition requiredMessage :: "string \<Rightarrow> JsonRule \<Rightarrow> string" where
  "requiredMessage fieldName rules =
     js_or (errorMessageRequired rules)
       (toLowerCase (space_before_capitals fieldName) @ '' is required'')"

text \<open>The two tests of "no value" in the transforms: line 71 and 75, and the others.\<close>

fun blank_or_nullish :: "jsvalue \<Rightarrow> bool" where
  "blank_or_nullish (JStr s) = (trim s = [])"
| "blank_or_nullish JNull = True"
| "blank_or_nullish JUndefined = True"
| "blank_or_nullish _ = False"

definition empty_or_nullish :: "jsvalue \<Rightarrow> bool" where
  "empty_or_nullish value = (value = JStr [] \<or> value = JNull \<or> value = JUndefined)"

subsection \<open>String fields (lines 68 to 113)\<close>

text \<open>
  The messages of lines 84 to 102, as they are handed to yup: the rule's template, or the
  generic text when the rule has none, with \<open>replace\<close> applied for the constraint's
  own placeholder.
\<close>

definition stringTypeMessage :: "JsonRule \<Rightarrow> string" where
  "stringTypeMessage rules = js_or (errorMessageType rules) ''Invalid value, must be a string.''"

definition minLengthMessage :: "JsonRule \<Rightarrow> int \<Rightarrow> string" where
  "minLengthMessage rules n =
     js_replace (js_or (errorMessageMinLength rules) ''Minimum length is {minLength}'')
       ''{minLength}'' (String_int n)"

definition maxLengthMessage :: "JsonRule \<Rightarrow> int \<Rightarrow> string" where
  "maxLengthMessage rules n =
     js_replace (js_or (errorMessageMaxLength rules) ''Maximum length is {maxLength}'')
       ''{maxLength}'' (String_int n)"

definition patternMessage :: "JsonRule \<Rightarrow> string" where
  "patternMessage rules = js_or (errorMessagePattern rules) ''Invalid format''"

definition allowedValuesMessage :: "JsonRule \<Rightarrow> string list \<Rightarrow> string" where
  "allowedValuesMessage rules vals =
     js_replace (js_or (errorMessageAllowedValues rules) ''Must be one of: {allowedValues}'')
       ''{allowedValues}'' (join '', '' vals)"

text \<open>
  Lines 84 to 103: the schema \<open>tempStringValidator\<close> and the diagnostics of building it.
\<close>

definition string_schema :: "jslib \<Rightarrow> string \<Rightarrow> JsonRule \<Rightarrow> diagnostic list \<times> string schema" where
  "string_schema lib fieldName rules =
     (let s0 = typeError (stringTypeMessage rules) yup_string;
          s1 = (case minLength rules of
                  None \<Rightarrow> s0
                | Some n \<Rightarrow> string_min n (minLengthMessage rules n) s0);
          s2 = (case maxLength rules of
                  None \<Rightarrow> s1
                | Some n \<Rightarrow> string_max n (maxLengthMessage rules n) s1);
          (diags, s3) =
            (case pattern rules of
               None \<Rightarrow> ([], s2)
             | Some p \<Rightarrow>
                 if p = [] then ([], s2)
                 else
                   (case RegExp lib p of
                      Some re \<Rightarrow> ([], matches p re (patternMessage rules) s2)
                    | None \<Rightarrow>
                        ([ConsoleError (''Invalid regex pattern for field '' @ fieldName @ '': '' @ p)], s2)));
          s4 = (case allowedValues rules of
                  None \<Rightarrow> s3
                | Some vals \<Rightarrow> oneOf vals (allowedValuesMessage rules vals) s3)
      in (diags, s4))"

text \<open>
  Lines 81 to 111: the test function \<open>is-string-and-valid-<fieldName>\<close>. The error
  that \<open>validateSync\<close> throws is caught, and its message is handed to
  \<open>ctx.createError\<close>.
\<close>

definition trimmedValue :: "jsvalue \<Rightarrow> jsvalue" where
  "trimmedValue value = (case value of JStr s \<Rightarrow> JStr (trim s) | _ \<Rightarrow> value)"

definition string_test :: "jslib \<Rightarrow> string \<Rightarrow> JsonRule \<Rightarrow> validator" where
  "string_test lib fieldName rules value =
     (if value = JNull \<or> value = JUndefined then ([], Ok)
      else
        (let (diags, tempStringValidator) = string_schema lib fieldName rules
         in (diags,
             case validateSync (\<lambda>kind arg. formatError lib kind arg fieldName value)
                    tempStringValidator (string_cast lib (trimmedValue value)) of
               Inr v \<Rightarrow> Ok
             | Inl err \<Rightarrow>
                 Fail (createError lib (''is-string-and-valid-'' @ fieldName) fieldName value
                         (message err)))))"

definition string_validator :: "jslib \<Rightarrow> string \<Rightarrow> JsonRule \<Rightarrow> validator" where
  "string_validator lib fieldName rules value =
     (case baseValidator lib fieldName blank_or_nullish (is_required rules) (requiredMessage fieldName rules) value of
        Inl err \<Rightarrow> ([], Fail err)
      | Inr v \<Rightarrow> string_test lib fieldName rules v)"

subsection \<open>Number fields (lines 115 to 147)\<close>

text \<open>The messages of lines 131 to 136.\<close>

definition numberTypeMessage :: "JsonRule \<Rightarrow> string" where
  "numberTypeMessage rules = js_or (errorMessageType rules) ''Must be a valid number''"

definition minValueMessage :: "jslib \<Rightarrow> JsonRule \<Rightarrow> rat \<Rightarrow> string" where
  "minValueMessage lib rules n =
     js_replace (js_or (errorMessageMinValue rules) ''Minimum value is {minValue}'')
       ''{minValue}'' (numToString lib n)"

definition maxValueMessage :: "jslib \<Rightarrow> JsonRule \<Rightarrow> rat \<Rightarrow> string" where
  "maxValueMessage lib rules n =
     js_replace (js_or (errorMessageMaxValue rules) ''Maximum value is {maxValue}'')
       ''{maxValue}'' (numToString lib n)"

definition number_schema :: "jslib \<Rightarrow> JsonRule \<Rightarrow> rat schema" where
  "number_schema lib rules =
     (let s0 = typeError (numberTypeMessage rules) yup_number;
          s1 = (case minValue rules of
                  None \<Rightarrow> s0
                | Some n \<Rightarrow> number_min n (minValueMessage lib rules n) s0);
          s2 = (case maxValue rules of
                  None \<Rightarrow> s1
                | Some n \<Rightarrow> number_max n (maxValueMessage lib rules n) s1)
      in s2)"

definition number_test :: "jslib \<Rightarrow> string \<Rightarrow> JsonRule \<Rightarrow> validator" where
  "number_test lib fieldName rules value =
     (if value = JNull \<or> value = JUndefined then ([], Ok)
      else
        ([],
         case validateSync (\<lambda>kind arg. formatError lib kind arg fieldName value)
                (number_schema lib rules) (toNumber lib value) of
           Inr v \<Rightarrow> Ok
         | Inl err \<Rightarrow>
             Fail (createError lib (''is-number-and-valid-'' @ fieldName) fieldName value
                     (message err))))"

definition number_validator :: "jslib \<Rightarrow> string \<Rightarrow> JsonRule \<Rightarrow> validator" where
  "number_validator lib fieldName rules value =
     (case baseValidator lib fieldName empty_or_nullish (is_required rules) (requiredMessage fieldName rules) value of
        Inl err \<Rightarrow> ([], Fail err)
      | Inr v \<Rightarrow> number_test lib fieldName rules v)"

subsection \<open>Date fields (lines 149 to 208)\<close>

text \<open>
  Lines 164 to 206. The schema \<open>tempDateValidator\<close> of lines 178 to 182 is built and
  never used for a validation, so it has no part in the result. The custom rule returns
  its error at line 187, before \<open>finalDateCheckSchema\<close>, which holds the \<open>minDate\<close>
  bound, is validated at line 201.
\<close>

definition date_error :: "jslib \<Rightarrow> string \<Rightarrow> jsvalue \<Rightarrow> string \<Rightarrow> outcome" where
  "date_error lib fieldName value msg =
     Fail (createError lib (''is-date-and-valid-'' @ fieldName) fieldName value msg)"

definition finalDateCheckSchema :: "jslib \<Rightarrow> JsonRule \<Rightarrow> jsdate schema" where
  "finalDateCheckSchema lib rules =
     (let s0 = typeError (js_or (errorMessageType rules) ''Please enter a valid date.'') yup_date
      in if minDate rules = Some ''today''
         then date_min (startOfDay (now lib))
                (js_or (errorMessageMinDate rules) ''Date cannot be in the past.'') s0
         else s0)"

definition date_test :: "jslib \<Rightarrow> string \<Rightarrow> JsonRule \<Rightarrow> validator" where
  "date_test lib fieldName rules value =
     (if value = JNull \<or> value = JUndefined then ([], Ok)
      else
        (case value of
           JStr s \<Rightarrow>
             (let parsedDate = parseISO lib s
              in if \<not> isValid parsedDate
                 then ([], date_error lib fieldName value
                             (js_or (errorMessageType rules) ''Please enter a valid date.''))
                 else if customRule rules = Some ''noWeekendOrHoliday''
                         \<and> (isWeekend parsedDate \<or> isPublicHoliday lib parsedDate)
                 then ([], date_error lib fieldName value
                             (js_or (errorMessageCustomRule rules)
                                ''Date cannot be a weekend or public holiday.''))
                 else
                   ([],
                    case validateSync (\<lambda>kind arg. formatError lib kind arg fieldName value)
                           (finalDateCheckSchema lib rules) (date_cast parsedDate) of
                      Inr v \<Rightarrow> Ok
                    | Inl err \<Rightarrow> date_error lib fieldName value (message err)))
         | _ \<Rightarrow>
             ([], date_error lib fieldName value
                    (js_or (errorMessageType rules) ''Date must be a valid string input.''))))"

definition date_validator :: "jslib \<Rightarrow> string \<Rightarrow> JsonRule \<Rightarrow> validator" where
  "date_validator lib fieldName rules value =
     (case baseValidator lib fieldName empty_or_nullish (is_required rules) (requiredMessage fieldName rules) value of
        Inl err \<Rightarrow> ([], Fail err)
      | Inr v \<Rightarrow> date_test lib fieldName rules v)"

subsection \<open>Any other type (lines 210 to 222)\<close>

definition mixedValidatorDefault :: "jslib \<Rightarrow> string \<Rightarrow> JsonRule \<Rightarrow> validator" where
  "mixedValidatorDefault lib fieldName rules value =
     (case baseValidator lib fieldName empty_or_nullish (is_required rules) (requiredMessage fieldName rules) value of
        Inl err \<Rightarrow> ([], Fail err)
      | Inr v \<Rightarrow> ([], Ok))"

definition unsupported_type_warning :: "string \<Rightarrow> JsonRule \<Rightarrow> diagnostic" where
  \<open>unsupported_type_warning fieldName rules =
     ConsoleWarn (''Unsupported validation type "''
       @ (case type rules of None \<Rightarrow> ''undefined'' | Some t \<Rightarrow> t)
       @ ''" for field "'' @ fieldName @ ''". Using mixed().'')\<close>

subsection \<open>The loop over the fields\<close>

text \<open>
  Lines 62 to 227 for one resolved rule: the diagnostics of compiling the field and its
  validator.
\<close>

definition compile_field :: "jslib \<Rightarrow> string \<Rightarrow> JsonRule \<Rightarrow> diagnostic list \<times> validator" where
  "compile_field lib fieldName rules =
     (if type rules = Some ''string'' then ([], string_validator lib fieldName rules)
      else if type rules = Some ''number'' then ([], number_validator lib fieldName rules)
      else if type rules = Some ''date'' then ([], date_validator lib fieldName rules)
      else ([unsupported_type_warning fieldName rules], mixedValidatorDefault lib fieldName rules))"

text \<open>
  The \<open>for\<close> loop of lines 48 to 228, with the console output so far and
  \<open>schemaObjectShape\<close> as its state.
\<close>

fun build_loop ::
  "jslib \<Rightarrow> JsonDefinitions \<Rightarrow> JsonFieldConfig \<Rightarrow> diagnostic list \<times> (string \<rightharpoonup> validator)
     \<Rightarrow> diagnostic list \<times> (string \<rightharpoonup> validator)" where
  "build_loop lib definitions [] acc = acc"
| "build_loop lib definitions ((fieldName, rule) # rest) (diags, schemaObjectShape) =
     (case resolve_ref definitions rule of
        Inl warning \<Rightarrow> build_loop lib definitions rest (diags @ [warning], schemaObjectShape)
      | Inr rules \<Rightarrow>
          (let (ds, fieldValidator) = compile_field lib fieldName rules
           in build_loop lib definitions rest
                (diags @ ds, schemaObjectShape(fieldName \<mapsto> fieldValidator))))"

definition buildYupSchema ::
  "jslib \<Rightarrow> JsonFieldConfig \<Rightarrow> JsonDefinitions \<Rightarrow> diagnostic list \<times> (string \<rightharpoonup> validator)" where
  "buildYupSchema lib configSection definitions =
     build_loop lib definitions configSection ([], Map.empty)"


section \<open>Notions used to state the properties\<close>

text \<open>
  \<open>overrides own inherited resolved\<close>: the resolved attribute is the field rule's own
  value when the field rule has the attribute, and the definition's otherwise.
\<close>

definition overrides :: "'a option \<Rightarrow> 'a option \<Rightarrow> 'a option \<Rightarrow> bool" where
  "overrides own inherited resolved =
     (case own of Some v \<Rightarrow> resolved = Some v | None \<Rightarrow> resolved = inherited)"

text \<open>What one pass of the loop adds to \<open>schemaObjectShape\<close> and to the console.\<close>

definition compiled_entry :: "jslib \<Rightarrow> JsonDefinitions \<Rightarrow> string \<Rightarrow> JsonRule \<Rightarrow> validator option" where
  "compiled_entry lib definitions fieldName rule =
     (case resolve_ref definitions rule of
        Inl warning \<Rightarrow> None
      | Inr rules \<Rightarrow> Some (snd (compile_field lib fieldName rules)))"

definition entry_diagnostics :: "jslib \<Rightarrow> JsonDefinitions \<Rightarrow> string \<times> JsonRule \<Rightarrow> diagnostic list" where
  "entry_diagnostics lib definitions entry =
     (case resolve_ref definitions (snd entry) of
        Inl warning \<Rightarrow> [warning]
      | Inr rules \<Rightarrow> fst (compile_field lib (fst entry) rules))"

text \<open>
  The result of line 106, \<open>tempStringValidator.validateSync(trimmedValue)\<close>, of line 140
  and of line 201, before the \<open>catch\<close> keeps only its message: the error thrown
  (\<open>Inl\<close>) or the value returned; and the name of the test that failed, if one did.
\<close>

definition string_check :: "jslib \<Rightarrow> string \<Rightarrow> JsonRule \<Rightarrow> jsvalue \<Rightarrow> ValidationError + string" where
  "string_check lib fieldName rules value =
     validateSync (\<lambda>kind arg. formatError lib kind arg fieldName value)
       (snd (string_schema lib fieldName rules)) (string_cast lib (trimmedValue value))"

definition number_check :: "jslib \<Rightarrow> string \<Rightarrow> JsonRule \<Rightarrow> jsvalue \<Rightarrow> ValidationError + rat" where
  "number_check lib fieldName rules value =
     validateSync (\<lambda>kind arg. formatError lib kind arg fieldName value)
       (number_schema lib rules) (toNumber lib value)"

definition date_check :: "jslib \<Rightarrow> string \<Rightarrow> JsonRule \<Rightarrow> jsvalue \<Rightarrow> jsdate \<Rightarrow> ValidationError + jsdate" where
  "date_check lib fieldName rules value parsedDate =
     validateSync (\<lambda>kind arg. formatError lib kind arg fieldName value)
       (finalDateCheckSchema lib rules) (date_cast parsedDate)"

definition failed_check :: "ValidationError + 'a \<Rightarrow> err_type option" where
  "failed_check res = (case res of Inr v \<Rightarrow> None | Inl err \<Rightarrow> Some (errType err))"

text \<open>
  What a test callback returns for the result of its \<open>validateSync\<close>: \<open>true\<close> when
  it returned, and when it threw, the error \<open>ctx.createError\<close> makes of the message.
\<close>

definition caught :: "jslib \<Rightarrow> string \<Rightarrow> string \<Rightarrow> jsvalue \<Rightarrow> ValidationError + 'a \<Rightarrow> outcome" where
  "caught lib testName fieldName value res =
     (case res of
        Inr v \<Rightarrow> Ok
      | Inl err \<Rightarrow> Fail (createError lib testName fieldName value (message err)))"

text \<open>
  The constraints of a string rule on the trimmed string \<open>s\<close>; a constraint that the
  rule does not have holds. The pattern constraint also holds when the pattern is empty
  or not a regular expression: then no check is added (lines 96 to 100).
\<close>

definition minLength_ok :: "JsonRule \<Rightarrow> string \<Rightarrow> bool" where
  "minLength_ok rules s = (case minLength rules of None \<Rightarrow> True | Some n \<Rightarrow> n \<le> int (length s))"

definition maxLength_ok :: "JsonRule \<Rightarrow> string \<Rightarrow> bool" where
  "maxLength_ok rules s = (case maxLength rules of None \<Rightarrow> True | Some n \<Rightarrow> int (length s) \<le> n)"

definition pattern_ok :: "jslib \<Rightarrow> JsonRule \<Rightarrow> string \<Rightarrow> bool" where
  "pattern_ok lib rules s =
     (case pattern rules of
        None \<Rightarrow> True
      | Some p \<Rightarrow> p = [] \<or> (case RegExp lib p of None \<Rightarrow> True | Some re \<Rightarrow> re s))"

definition allowedValues_ok :: "JsonRule \<Rightarrow> string \<Rightarrow> bool" where
  "allowedValues_ok rules s = (case allowedValues rules of None \<Rightarrow> True | Some vals \<Rightarrow> s \<in> set vals)"

text \<open>The two bounds of a number rule on the number \<open>x\<close>.\<close>

definition minValue_ok :: "JsonRule \<Rightarrow> rat \<Rightarrow> bool" where
  "minValue_ok rules x = (case minValue rules of None \<Rightarrow> True | Some n \<Rightarrow> n \<le> x)"

definition maxValue_ok :: "JsonRule \<Rightarrow> rat \<Rightarrow> bool" where
  "maxValue_ok rules x = (case maxValue rules of None \<Rightarrow> True | Some n \<Rightarrow> x \<le> n)"

text \<open>The calendar day of \<open>a\<close> is before the calendar day of \<open>b\<close>.\<close>

definition earlier_day :: "jsdate \<Rightarrow> jsdate \<Rightarrow> bool" where
  "earlier_day a b =
     (year a < year b \<or> (year a = year b \<and> (month a < month b \<or> (month a = month b \<and> day a < day b))))"





section \<open>Concrete data for the closed examples\<close>

text \<open>
  A rule with no attribute, and a platform for the examples: it knows the two regular
  expressions of the repository's configuration and rejects every other pattern as a
  syntax error, parses calendar dates only, has the clock at 2025-06-11 (a Wednesday),
  09:30, and works on integral numbers. Of the parameters of an error it prints the
  path, which is the name of the field for the tests of the field and \<open>this\<close> for the
  tests of a schema validated on its own, and the bounds \<open>min\<close> and \<open>max\<close> of a
  length test; every other parameter is printed as \<open>undefined\<close>.
\<close>

definition emptyRule :: JsonRule where
  "emptyRule =
     \<lparr>type = None, required = None, minLength = None, maxLength = None, pattern = None,
      allowedValues = None, minValue = None, maxValue = None, customRule = None, minDate = None,
      errorMessageRequired = None, errorMessageMinLength = None, errorMessageMaxLength = None,
      errorMessagePattern = None, errorMessageAllowedValues = None, errorMessageType = None,
      errorMessageMinValue = None, errorMessageMaxValue = None, errorMessageMinDate = None,
      errorMessageCustomRule = None, ref = None\<rparr>"

definition example_param :: "err_type \<Rightarrow> test_arg \<Rightarrow> string \<Rightarrow> jsvalue \<Rightarrow> string \<Rightarrow> string" where
  "example_param kind arg fieldName value name =
     (if name = ''path''
      then (case kind of Required \<Rightarrow> fieldName | TestName n \<Rightarrow> fieldName | _ \<Rightarrow> ''this'')
      else if (name = ''min'' \<and> kind = Min) \<or> (name = ''max'' \<and> kind = Max)
      then (case arg of LengthArg n \<Rightarrow> String_int n | _ \<Rightarrow> ''undefined'')
      else ''undefined'')"

definition example_lib :: jslib where
  "example_lib =
     \<lparr>RegExp = (\<lambda>p. if p = ''^[0-9]{9}$'' then Some (\<lambda>s. length s = 9 \<and> list_all isDigit s)
                   else if p = ''^[0-9]{8,17}$''
                   then Some (\<lambda>s. 8 \<le> length s \<and> length s \<le> 17 \<and> list_all isDigit s)
                   else None),
      parseISO_other = (\<lambda>s. InvalidDate),
      now = Date 2025 6 11 34200000,
      numToString = (\<lambda>r. String_int \<lfloor>r\<rfloor>),
      toNumber = (\<lambda>v. case v of JNum r \<Rightarrow> Some r | _ \<Rightarrow> None),
      yupParam = example_param\<rparr>"

text \<open>The definitions of \<open>validationDefinitions.json\<close>.\<close>

definition nonEmptyString :: JsonRule where
  "nonEmptyString = emptyRule
     \<lparr>type := Some ''string'', required := Some True, minLength := Some 1,
      errorMessageRequired := Some ''This field cannot be empty.'',
      errorMessageMinLength := Some ''This field requires at least {minLength} character(s).''\<rparr>"

definition accountNumber :: JsonRule where
  "accountNumber = emptyRule
     \<lparr>type := Some ''string'', required := Some True, pattern := Some ''^[0-9]{8,17}$'',
      errorMessageRequired := Some ''Account number is required.'',
      errorMessagePattern := Some ''Account number must be between 8 and 17 digits.''\<rparr>"

definition validDate :: JsonRule where
  "validDate = emptyRule
     \<lparr>type := Some ''date'', required := Some True, customRule := Some ''noWeekendOrHoliday'',
      minDate := Some ''today'',
      errorMessageRequired := Some ''Transfer date is required.'',
      errorMessageType := Some ''Please enter a valid date.'',
      errorMessageMinDate := Some ''Transfer date cannot be in the past.'',
      errorMessageCustomRule := Some ''Transfer date cannot be a weekend or public holiday.''\<rparr>"

definition validationDefinitions :: JsonDefinitions where
  "validationDefinitions =
     [''nonEmptyString'' \<mapsto> nonEmptyString, ''accountNumber'' \<mapsto> accountNumber,
      ''validDate'' \<mapsto> validDate]"

text \<open>Field rules of \<open>wireTransferValidationConfig.json\<close>, and variations of them.\<close>

definition beneficiaryName :: JsonRule where
  "beneficiaryName = emptyRule
     \<lparr>ref := Some ''#/definitions/nonEmptyString'', maxLength := Some 100,
      errorMessageMaxLength := Some ''Beneficiary name cannot exceed {maxLength} characters.''\<rparr>"

definition currency :: JsonRule where
  "currency = emptyRule
     \<lparr>type := Some ''string'', required := Some True,
      allowedValues := Some [''USD'', ''CAD'', ''EUR''],
      errorMessageRequired := Some ''Currency is required.'',
      errorMessageAllowedValues := Some ''Invalid currency. Allowed: {allowedValues}.''\<rparr>"

definition memo :: JsonRule where
  "memo = emptyRule
     \<lparr>type := Some ''string'', required := Some False, maxLength := Some 140,
      errorMessageMaxLength := Some ''Memo cannot exceed {maxLength} characters.''\<rparr>"

definition missingReference :: JsonRule where
  "missingReference = emptyRule\<lparr>ref := Some ''#/definitions/doesNotExist''\<rparr>"

definition booleanFlag :: JsonRule where
  "booleanFlag = emptyRule\<lparr>type := Some ''boolean'', required := Some True\<rparr>"

definition exampleConfig :: JsonFieldConfig where
  "exampleConfig =
     [(''beneficiaryName'', beneficiaryName), (''ghost'', missingReference), (''memo'', memo)]"

definition routingNumber :: JsonRule where
  "routingNumber = emptyRule
     \<lparr>type := Some ''string'', required := Some True, pattern := Some ''^[0-9]{9}$'',
      errorMessageRequired := Some ''Routing number is required.'',
      errorMessagePattern := Some ''Routing number must be exactly 9 digits.''\<rparr>"

definition routingNumberPlain :: JsonRule where
  "routingNumberPlain = emptyRule\<lparr>type := Some ''string'', required := Some True\<rparr>"

definition currencyMax3 :: JsonRule where
  "currencyMax3 = currency\<lparr>maxLength := Some 3\<rparr>"

definition brokenPattern :: JsonRule where
  "brokenPattern = emptyRule
     \<lparr>type := Some ''string'', required := Some True, minLength := Some 2, pattern := Some ''(''\<rparr>"


definition prototypeReference :: JsonRule where
  "prototypeReference = emptyRule\<lparr>ref := Some ''#/definitions/toString''\<rparr>"

definition pathTemplate :: JsonRule where
  "pathTemplate = emptyRule
     \<lparr>type := Some ''string'', required := Some True,
      errorMessageRequired := Some ''${path} is required''\<rparr>"

definition wholeAmount :: JsonRule where
  "wholeAmount = emptyRule
     \<lparr>type := Some ''number'', required := Some True, minValue := Some 1,
      errorMessageMinValue := Some ''Amount must be at least {minValue}.''\<rparr>"



definition lengthBounds :: JsonRule where
  "lengthBounds = emptyRule\<lparr>type := Some ''string'', minLength := Some 2, maxLength := Some 3\<rparr>"


section \<open>Properties of the calendar\<close>

lemma digit_char_0: "digit_char 0 = CHR ''0''"
  by code_simp

lemma digit_char_props: "k < 10 \<Longrightarrow> isDigit (digit_char k) \<and> digitVal (digit_char k) = k"
  by (simp add: isDigit_def digitVal_def digit_char_def)

lemma digits_lt10: "n < 10 \<Longrightarrow> digits n = [digit_char n]"
  by (subst digits.simps) simp

lemma digits_lt100: "10 \<le> n \<Longrightarrow> n < 100 \<Longrightarrow> digits n = [digit_char (n div 10), digit_char (n mod 10)]"
  by (subst digits.simps) (simp add: digits_lt10)

lemma digits_lt1000:
  "100 \<le> n \<Longrightarrow> n < 1000 \<Longrightarrow> digits n = [digit_char (n div 100), digit_char (n div 10 mod 10), digit_char (n mod 10)]"
  by (subst digits.simps) (simp add: digits_lt100 div_mult2_eq[symmetric])

lemma digits_lt10000:
  "1000 \<le> n \<Longrightarrow> n < 10000 \<Longrightarrow>
   digits n = [digit_char (n div 1000), digit_char (n div 100 mod 10), digit_char (n div 10 mod 10), digit_char (n mod 10)]"
  by (subst digits.simps) (simp add: digits_lt1000 div_mult2_eq[symmetric])

lemma addLeadingZeros_2:
  "n < 100 \<Longrightarrow> addLeadingZeros n 2 = [digit_char (n div 10), digit_char (n mod 10)]"
proof (cases "n < 10")
  case True
  then show ?thesis by (simp add: addLeadingZeros_def digits_lt10 digit_char_0)
next
  case False
  assume "n < 100"
  with False show ?thesis by (simp add: addLeadingZeros_def digits_lt100)
qed

lemma addLeadingZeros_4:
  assumes "n < 10000"
  shows "addLeadingZeros n 4 =
    [digit_char (n div 1000), digit_char (n div 100 mod 10), digit_char (n div 10 mod 10), digit_char (n mod 10)]"
proof -
  consider "n < 10" | "10 \<le> n" "n < 100" | "100 \<le> n" "n < 1000" | "1000 \<le> n"
    by linarith
  then show ?thesis
  proof cases
    case 1
    then show ?thesis by (simp add: addLeadingZeros_def digits_lt10 digit_char_0 numeral_3_eq_3 numeral_2_eq_2)
  next
    case 2
    then show ?thesis by (simp add: addLeadingZeros_def digits_lt100 digit_char_0 numeral_3_eq_3 numeral_2_eq_2)
  next
    case 3
    then show ?thesis by (simp add: addLeadingZeros_def digits_lt1000 digit_char_0 numeral_3_eq_3 numeral_2_eq_2)
  next
    case 4
    with assms show ?thesis by (simp add: addLeadingZeros_def digits_lt10000)
  qed
qed

lemma daysInMonth_le: "daysInMonth y m \<le> 31"
  by (simp add: daysInMonth_def)

text \<open>
  Parsing what \<open>format\<close> wrote gives local midnight of the same month and day in the
  year of the era, when that year has such a day.
\<close>

lemma parse_format:
  assumes y: "- 9998 \<le> y" "y \<le> 9999" and m: "m < 100" and d: "d < 100"
  shows "parse_calendar_date (format_yyyy_MM_dd y m d) =
           Some (if valid_ymd (int (eraYear y)) m d
                 then Date (int (eraYear y)) m d 0 else InvalidDate)"
proof -
  define e where "e = eraYear y"
  have e: "e < 10000"
    using y by (auto simp add: e_def eraYear_def nat_less_iff)
  have a1: "e div 10 div 10 = e div 100" and a2: "e div 100 div 10 = e div 1000"
    by (simp_all add: div_mult2_eq[symmetric])
  have b0: "e div 10 * 10 + e mod 10 = e"
    and b1: "e div 10 div 10 * 10 + e div 10 mod 10 = e div 10"
    and b2: "e div 100 div 10 * 10 + e div 100 mod 10 = e div 100"
    by (rule div_mult_mod_eq)+
  have ye: "e div 1000 * 1000 + e div 100 mod 10 * 100 + e div 10 mod 10 * 10 + e mod 10 = e"
    using b0 b1 b2 unfolding a1 a2 by linarith
  have me: "m div 10 * 10 + m mod 10 = m" and de: "d div 10 * 10 + d mod 10 = d"
    by (rule div_mult_mod_eq)+
  have lt: "e div 1000 < 10" "e div 100 mod 10 < 10" "e div 10 mod 10 < 10" "e mod 10 < 10"
     "m div 10 < 10" "m mod 10 < 10" "d div 10 < 10" "d mod 10 < 10"
    using e m d by (simp_all add: less_mult_imp_div_less)
  have str: "format_yyyy_MM_dd y m d =
      [digit_char (e div 1000), digit_char (e div 100 mod 10), digit_char (e div 10 mod 10), digit_char (e mod 10),
       CHR ''-'', digit_char (m div 10), digit_char (m mod 10), CHR ''-'', digit_char (d div 10), digit_char (d mod 10)]"
    using e m d by (simp add: format_yyyy_MM_dd_def e_def[symmetric] addLeadingZeros_4 addLeadingZeros_2)
  show ?thesis
    unfolding str parse_calendar_date_def e_def[symmetric]
    by (simp only: list.case digit_char_props[OF lt(1)] digit_char_props[OF lt(2)] digit_char_props[OF lt(3)]
        digit_char_props[OF lt(4)] digit_char_props[OF lt(5)] digit_char_props[OF lt(6)]
        digit_char_props[OF lt(7)] digit_char_props[OF lt(8)] ye me de simp_thms if_True Let_def)
qed

lemma US_HOLIDAYS_2025_dates:
  "US_HOLIDAYS_2025 lib =
     [Date 2025 1 1 0, Date 2025 1 20 0, Date 2025 2 17 0, Date 2025 5 26 0, Date 2025 6 19 0,
      Date 2025 7 4 0, Date 2025 9 1 0, Date 2025 10 13 0, Date 2025 11 11 0, Date 2025 11 27 0,
      Date 2025 12 25 0]"
  by (simp add: US_HOLIDAYS_2025_def US_HOLIDAYS_2025_STRINGS_def parseISO_def parse_calendar_date_def
      isDigit_def digitVal_def valid_ymd_def daysInMonth_def isLeapYear_def)

lemma US_HOLIDAYS_2025_valid:
  "Date y m d 0 \<in> set (US_HOLIDAYS_2025 lib) \<Longrightarrow> y = 2025 \<and> valid_ymd y m d"
  by (auto simp add: US_HOLIDAYS_2025_dates valid_ymd_def daysInMonth_def isLeapYear_def)

text \<open>
  \<open>isPublicHoliday\<close> looks the month and the day up in the year of the era of its
  argument.
\<close>

lemma isPublicHoliday_days:
  assumes "- 9998 \<le> y" "y \<le> 9999" "valid_ymd y m d"
  shows "isPublicHoliday lib (Date y m d ms) =
           (Date (int (eraYear y)) m d 0 \<in> set (US_HOLIDAYS_2025 lib))"
proof -
  have m: "m < 100" and d: "d < 100"
    using assms(3) daysInMonth_le[of y m] by (simp_all add: valid_ymd_def)
  have p: "parseISO lib (format_yyyy_MM_dd y m d) =
      (if valid_ymd (int (eraYear y)) m d then Date (int (eraYear y)) m d 0 else InvalidDate)"
    using assms(1,2) m d by (simp add: parseISO_def parse_format)
  show ?thesis
  proof (cases "valid_ymd (int (eraYear y)) m d")
    case True
    with p show ?thesis
      by (auto simp add: isPublicHoliday.simps US_HOLIDAYS_2025_dates isValid_def list_ex_iff)
  next
    case False
    with p US_HOLIDAYS_2025_valid[of "int (eraYear y)" m d lib] show ?thesis
      by (auto simp add: isPublicHoliday.simps isValid_def)
  qed
qed

text \<open>
  For a date of the common era (a real calendar day of a year from 1 to 9999, any time of
  day), \<open>isPublicHoliday\<close> is true exactly when the date with its time of day stripped
  is one of the dates of the reference list \<open>US_HOLIDAYS_2025\<close>; the list has eleven
  entries, all of them in 2025, so such a date of any other year is no holiday.
\<close>

lemma isPublicHoliday_common_era:
  assumes "proper_date date" and "0 < year date"
  shows "(isPublicHoliday lib date \<longleftrightarrow> startOfDay date \<in> set (US_HOLIDAYS_2025 lib))
     \<and> length (US_HOLIDAYS_2025 lib) = 11
     \<and> (\<forall>h \<in> set (US_HOLIDAYS_2025 lib). year h = 2025 \<and> proper_date h)
     \<and> (year date \<noteq> 2025 \<longrightarrow> \<not> isPublicHoliday lib date)"
proof (cases date)
  case InvalidDate
  with assms(1) show ?thesis by simp
next
  case (Date y m d ms)
  with assms have r: "- 9998 \<le> y" "y \<le> 9999" "valid_ymd y m d" and e: "int (eraYear y) = y"
    by (simp_all add: eraYear_def)
  have 1: "isPublicHoliday lib date \<longleftrightarrow> startOfDay date \<in> set (US_HOLIDAYS_2025 lib)"
    using isPublicHoliday_days[OF r] Date e by simp
  have 2: "length (US_HOLIDAYS_2025 lib) = 11"
    by (simp add: US_HOLIDAYS_2025_dates)
  have 3: "\<forall>h \<in> set (US_HOLIDAYS_2025 lib). year h = 2025 \<and> proper_date h"
    by (simp add: US_HOLIDAYS_2025_dates valid_ymd_def daysInMonth_def isLeapYear_def)
  have 4: "year date \<noteq> 2025 \<longrightarrow> \<not> isPublicHoliday lib date"
    using 1 3 Date by auto
  from 1 2 3 4 show ?thesis by blast
qed

text \<open>
  C10 fails in the program. The fourth of July of the year 2025 BC (\<open>getFullYear\<close>
  -2024, the date \<open>parseISO\<close> gives for \<open>-002024-07-04\<close>) is a valid date outside
  2025, and its day at midnight is not in the reference list; \<open>format\<close> writes it as
  \<open>2025-07-04\<close>, because \<open>yyyy\<close> is the year of the era, and \<open>isPublicHoliday\<close>
  returns true.
\<close>

theorem isPublicHoliday_year_of_era:
  "proper_date (Date (- 2024) 7 4 0)
   \<and> year (Date (- 2024) 7 4 0) \<noteq> 2025
   \<and> startOfDay (Date (- 2024) 7 4 0) \<notin> set (US_HOLIDAYS_2025 example_lib)
   \<and> format_yyyy_MM_dd (- 2024) 7 4 = ''2025-07-04''
   \<and> isPublicHoliday example_lib (Date (- 2024) 7 4 0)"
proof -
  have v: "valid_ymd (- 2024) 7 4"
    by (simp add: valid_ymd_def daysInMonth_def)
  have e: "eraYear (- 2024) = 2025"
    by (simp add: eraYear_def)
  have f: "format_yyyy_MM_dd (- 2024) 7 4 = ''2025-07-04''"
    by code_simp
  have h: "isPublicHoliday example_lib (Date (- 2024) 7 4 0)"
    using isPublicHoliday_days[of "- 2024" 7 4 example_lib 0] v
    by (simp add: e US_HOLIDAYS_2025_dates)
  have s: "startOfDay (Date (- 2024) 7 4 0) \<notin> set (US_HOLIDAYS_2025 example_lib)"
    by (simp add: US_HOLIDAYS_2025_dates)
  from v f h s show ?thesis by simp
qed

section \<open>Properties of the texts\<close>


lemma interpolate_plain: "CHR ''$'' \<notin> set s \<Longrightarrow> interpolate params s = s"
  by (induction params s rule: interpolate.induct) auto

lemma formatError_plain:
  "CHR ''$'' \<notin> set msg \<Longrightarrow> formatError lib kind arg fieldName value msg = msg"
  by (simp add: formatError_def interpolate_plain)

lemma createError_plain:
  "CHR ''$'' \<notin> set msg \<Longrightarrow>
   createError lib testName fieldName value msg = ValidationError (TestName testName) msg"
  by (simp add: createError_def formatError_plain)






section \<open>Properties of the loop and of the resolution of references\<close>

lemma overrides_own_or: "overrides own inherited (own_or own inherited)"
  by (simp add: overrides_def own_or_def split: option.splits)

lemma build_loop_diagnostics:
  "fst (build_loop lib definitions cfg (diags, shape)) =
     diags @ concat (map (entry_diagnostics lib definitions) cfg)"
proof (induction cfg arbitrary: diags shape)
  case Nil
  show ?case by simp
next
  case (Cons e cfg)
  obtain f r where e: "e = (f, r)" by (cases e)
  show ?case
  proof (cases "resolve_ref definitions r")
    case (Inl w)
    then show ?thesis
      by (simp add: e entry_diagnostics_def Cons.IH)
  next
    case (Inr rules)
    obtain ds v where c: "compile_field lib f rules = (ds, v)" by (cases "compile_field lib f rules")
    show ?thesis
      by (simp add: e entry_diagnostics_def Cons.IH Inr c)
  qed
qed

lemma build_loop_shape:
  "distinct (map fst cfg) \<Longrightarrow>
   snd (build_loop lib definitions cfg (diags, shape)) g =
     (case map_of cfg g of
        None \<Rightarrow> shape g
      | Some r \<Rightarrow> (case compiled_entry lib definitions g r of None \<Rightarrow> shape g | Some v \<Rightarrow> Some v))"
proof (induction cfg arbitrary: diags shape)
  case Nil
  show ?case by simp
next
  case (Cons e cfg)
  obtain f r where e: "e = (f, r)" by (cases e)
  from Cons.prems e have d: "distinct (map fst cfg)" and nf: "f \<notin> fst ` set cfg" by simp_all
  from nf have mf: "map_of cfg f = None" by (simp add: map_of_eq_None_iff)
  show ?case
  proof (cases "resolve_ref definitions r")
    case (Inl w)
    then show ?thesis
      using mf by (simp add: e compiled_entry_def Cons.IH[OF d])
  next
    case (Inr rules)
    obtain ds v where c: "compile_field lib f rules = (ds, v)" by (cases "compile_field lib f rules")
    show ?thesis
      using mf by (simp add: e compiled_entry_def Cons.IH[OF d] Inr c split: option.splits)
  qed
qed

lemma buildYupSchema_shape:
  assumes "distinct (map fst cfg)" "(f, r) \<in> set cfg"
  shows "snd (buildYupSchema lib cfg definitions) f = compiled_entry lib definitions f r"
proof -
  from assms have "map_of cfg f = Some r" by simp
  then show ?thesis
    using build_loop_shape[OF assms(1), of lib definitions "[]" Map.empty f]
    by (simp add: buildYupSchema_def split: option.splits)
qed

lemma buildYupSchema_diagnostics:
  "fst (buildYupSchema lib cfg definitions) = concat (map (entry_diagnostics lib definitions) cfg)"
  by (simp add: buildYupSchema_def build_loop_diagnostics)

text \<open>
  C3. A field rule with a (non-empty) \<open>$ref\<close> whose definition is present in
  \<open>definitions\<close> resolves to a rule in which every attribute is the field rule's own
  value where the field rule has one and the definition's otherwise, and which has no
  \<open>$ref\<close>; this resolved rule is the one the field's validator is compiled from.
\<close>

theorem resolve_ref_merges_definition:
  assumes "ref rule = Some r" and "r \<noteq> []"
    and "definitions (js_replace r ''#/definitions/'' '''') = Some d"
  shows "\<exists>rules. resolve_ref definitions rule = Inr rules
         \<and> ref rules = None
         \<and> overrides (type rule) (type d) (type rules)
         \<and> overrides (required rule) (required d) (required rules)
         \<and> overrides (minLength rule) (minLength d) (minLength rules)
         \<and> overrides (maxLength rule) (maxLength d) (maxLength rules)
         \<and> overrides (pattern rule) (pattern d) (pattern rules)
         \<and> overrides (allowedValues rule) (allowedValues d) (allowedValues rules)
         \<and> overrides (minValue rule) (minValue d) (minValue rules)
         \<and> overrides (maxValue rule) (maxValue d) (maxValue rules)
         \<and> overrides (customRule rule) (customRule d) (customRule rules)
         \<and> overrides (minDate rule) (minDate d) (minDate rules)
         \<and> overrides (errorMessageRequired rule) (errorMessageRequired d) (errorMessageRequired rules)
         \<and> overrides (errorMessageMinLength rule) (errorMessageMinLength d) (errorMessageMinLength rules)
         \<and> overrides (errorMessageMaxLength rule) (errorMessageMaxLength d) (errorMessageMaxLength rules)
         \<and> overrides (errorMessagePattern rule) (errorMessagePattern d) (errorMessagePattern rules)
         \<and> overrides (errorMessageAllowedValues rule) (errorMessageAllowedValues d) (errorMessageAllowedValues rules)
         \<and> overrides (errorMessageType rule) (errorMessageType d) (errorMessageType rules)
         \<and> overrides (errorMessageMinValue rule) (errorMessageMinValue d) (errorMessageMinValue rules)
         \<and> overrides (errorMessageMaxValue rule) (errorMessageMaxValue d) (errorMessageMaxValue rules)
         \<and> overrides (errorMessageMinDate rule) (errorMessageMinDate d) (errorMessageMinDate rules)
         \<and> overrides (errorMessageCustomRule rule) (errorMessageCustomRule d) (errorMessageCustomRule rules)
         \<and> (\<forall>lib configSection fieldName.
               distinct (map fst configSection) \<longrightarrow> (fieldName, rule) \<in> set configSection \<longrightarrow>
               snd (buildYupSchema lib configSection definitions) fieldName
                 = Some (snd (compile_field lib fieldName rules)))"
proof -
  let ?rules = "(spread d rule)\<lparr>ref := None\<rparr>"
  have r: "resolve_ref definitions rule = Inr ?rules"
    using assms by (simp add: resolve_ref_def)
  have a: "ref ?rules = None
         \<and> overrides (type rule) (type d) (type ?rules)
         \<and> overrides (required rule) (required d) (required ?rules)
         \<and> overrides (minLength rule) (minLength d) (minLength ?rules)
         \<and> overrides (maxLength rule) (maxLength d) (maxLength ?rules)
         \<and> overrides (pattern rule) (pattern d) (pattern ?rules)
         \<and> overrides (allowedValues rule) (allowedValues d) (allowedValues ?rules)
         \<and> overrides (minValue rule) (minValue d) (minValue ?rules)
         \<and> overrides (maxValue rule) (maxValue d) (maxValue ?rules)
         \<and> overrides (customRule rule) (customRule d) (customRule ?rules)
         \<and> overrides (minDate rule) (minDate d) (minDate ?rules)
         \<and> overrides (errorMessageRequired rule) (errorMessageRequired d) (errorMessageRequired ?rules)
         \<and> overrides (errorMessageMinLength rule) (errorMessageMinLength d) (errorMessageMinLength ?rules)
         \<and> overrides (errorMessageMaxLength rule) (errorMessageMaxLength d) (errorMessageMaxLength ?rules)
         \<and> overrides (errorMessagePattern rule) (errorMessagePattern d) (errorMessagePattern ?rules)
         \<and> overrides (errorMessageAllowedValues rule) (errorMessageAllowedValues d) (errorMessageAllowedValues ?rules)
         \<and> overrides (errorMessageType rule) (errorMessageType d) (errorMessageType ?rules)
         \<and> overrides (errorMessageMinValue rule) (errorMessageMinValue d) (errorMessageMinValue ?rules)
         \<and> overrides (errorMessageMaxValue rule) (errorMessageMaxValue d) (errorMessageMaxValue ?rules)
         \<and> overrides (errorMessageMinDate rule) (errorMessageMinDate d) (errorMessageMinDate ?rules)
         \<and> overrides (errorMessageCustomRule rule) (errorMessageCustomRule d) (errorMessageCustomRule ?rules)"
    by (simp add: spread_def overrides_own_or)
  have l: "snd (buildYupSchema lib configSection definitions) fieldName
             = Some (snd (compile_field lib fieldName ?rules))"
    if "distinct (map fst configSection)" and "(fieldName, rule) \<in> set configSection"
    for lib configSection fieldName
    using buildYupSchema_shape[OF that, of lib definitions] r by (simp add: compiled_entry_def)
  from l have l': "\<forall>lib configSection fieldName.
               distinct (map fst configSection) \<longrightarrow> (fieldName, rule) \<in> set configSection \<longrightarrow>
               snd (buildYupSchema lib configSection definitions) fieldName
                 = Some (snd (compile_field lib fieldName ?rules))"
    by blast
  show ?thesis
    using r a l' by (intro exI[of _ ?rules]) (simp only: simp_thms)
qed

theorem resolve_ref_merges_definition_witness:
  "ref beneficiaryName = Some ''#/definitions/nonEmptyString''
   \<and> validationDefinitions (js_replace ''#/definitions/nonEmptyString'' ''#/definitions/'' '''')
       = Some nonEmptyString
   \<and> (\<exists>rules. resolve_ref validationDefinitions beneficiaryName = Inr rules
         \<and> ref rules = None \<and> type rules = Some ''string'' \<and> required rules = Some True
         \<and> minLength rules = Some 1 \<and> maxLength rules = Some 100
         \<and> errorMessageRequired rules = Some ''This field cannot be empty.'')"
proof -
  have 1: "ref beneficiaryName = Some ''#/definitions/nonEmptyString''"
    by (simp add: beneficiaryName_def emptyRule_def)
  have 2: "''#/definitions/nonEmptyString'' \<noteq> []"
    by simp
  have 3: "validationDefinitions (js_replace ''#/definitions/nonEmptyString'' ''#/definitions/'' '''')
       = Some nonEmptyString"
    by (simp add: validationDefinitions_def js_replace_def)
  show ?thesis
    using 1 3 resolve_ref_merges_definition[where definitions = validationDefinitions, OF 1 2 3]
    by (auto simp add: overrides_def beneficiaryName_def nonEmptyString_def emptyRule_def)
qed

text \<open>
  When the rule of a field carries a (non-empty) \<open>$ref\<close> whose name is neither a
  property of \<open>definitions\<close> nor a member of \<open>Object.prototype\<close>,
  \<open>buildYupSchema\<close> returns a mapping without that field, writes the warning to the
  console, and gives every other field the validator compiled from its own rule.
\<close>

lemma missing_definition_skips_field:
  assumes "distinct (map fst configSection)" and "(fieldName, rule) \<in> set configSection"
    and "ref rule = Some r" and "r \<noteq> []"
    and "definitions (js_replace r ''#/definitions/'' '''') = None"
    and "js_replace r ''#/definitions/'' '''' \<notin> set Object_prototype_members"
  shows "snd (buildYupSchema lib configSection definitions) fieldName = None
     \<and> ConsoleWarn (''Validation definition not found for $ref: '' @ r)
           \<in> set (fst (buildYupSchema lib configSection definitions))
     \<and> (\<forall>(g, rule') \<in> set configSection. g \<noteq> fieldName \<longrightarrow>
           snd (buildYupSchema lib configSection definitions) g
             = compiled_entry lib definitions g rule')"
proof -
  let ?w = "ConsoleWarn (''Validation definition not found for $ref: '' @ r)"
  have res: "resolve_ref definitions rule = Inl ?w"
    using assms(3-6) by (simp add: resolve_ref_def)
  have 1: "snd (buildYupSchema lib configSection definitions) fieldName = None"
    using buildYupSchema_shape[OF assms(1,2), of lib definitions] res
    by (simp add: compiled_entry_def)
  have "entry_diagnostics lib definitions (fieldName, rule) = [?w]"
    using res by (simp add: entry_diagnostics_def)
  then have 2: "?w \<in> set (fst (buildYupSchema lib configSection definitions))"
    using assms(2) by (force simp add: buildYupSchema_diagnostics)
  have 3: "snd (buildYupSchema lib configSection definitions) g
             = compiled_entry lib definitions g rule'"
    if "(g, rule') \<in> set configSection" for g rule'
    using buildYupSchema_shape[OF assms(1) that, of lib definitions] by simp
  from 1 2 3 show ?thesis by blast
qed

text \<open>
  The example of the specification: the field \<open>ghost\<close> refers to the definition
  \<open>doesNotExist\<close>.
\<close>

lemma missing_definition_example:
  "snd (buildYupSchema example_lib exampleConfig validationDefinitions) ''ghost'' = None
   \<and> ConsoleWarn ''Validation definition not found for $ref: #/definitions/doesNotExist''
         \<in> set (fst (buildYupSchema example_lib exampleConfig validationDefinitions))
   \<and> snd (buildYupSchema example_lib exampleConfig validationDefinitions) ''memo''
         = Some (snd (compile_field example_lib ''memo'' memo))"
proof -
  have 1: "distinct (map fst exampleConfig)"
    by (simp add: exampleConfig_def)
  have 2: "(''ghost'', missingReference) \<in> set exampleConfig"
    by (simp add: exampleConfig_def)
  have 3: "ref missingReference = Some ''#/definitions/doesNotExist''"
    by (simp add: missingReference_def emptyRule_def)
  have 4: "''#/definitions/doesNotExist'' \<noteq> []"
    by simp
  have r: "js_replace ''#/definitions/doesNotExist'' ''#/definitions/'' '''' = ''doesNotExist''"
    by (simp add: js_replace_def)
  have 5: "validationDefinitions (js_replace ''#/definitions/doesNotExist'' ''#/definitions/'' '''') = None"
    unfolding r by (simp add: validationDefinitions_def)
  have 6: "js_replace ''#/definitions/doesNotExist'' ''#/definitions/'' ''''
      \<notin> set Object_prototype_members"
    unfolding r by (simp add: Object_prototype_members_def)
  have 7: "(''memo'', memo) \<in> set exampleConfig"
    by (simp add: exampleConfig_def)
  have 8: "compiled_entry example_lib validationDefinitions ''memo'' memo
      = Some (snd (compile_field example_lib ''memo'' memo))"
    by (simp add: compiled_entry_def resolve_ref_def memo_def emptyRule_def)
  show ?thesis
    using 7 8
      missing_definition_skips_field[where definitions = validationDefinitions and lib = example_lib,
        OF 1 2 3 4 5 6]
    by auto
qed

text \<open>
  C4 fails in the program. The lookup \<open>definitions[refPath]\<close> of line 53 also finds
  what a plain object inherits from \<open>Object.prototype\<close>: with the definitions of the
  repository, which have no definition \<open>toString\<close>, the field \<open>name\<close> with
  \<open>$ref: "#/definitions/toString"\<close> is not skipped. No warning about the missing
  definition is written, the rule is resolved to one without any attribute, and the field
  is in the returned mapping with the validator of an unsupported type, which accepts
  every value.
\<close>

theorem prototype_reference_is_compiled:
  \<open>ref prototypeReference = Some ''#/definitions/toString''
   \<and> validationDefinitions (js_replace ''#/definitions/toString'' ''#/definitions/'' '''') = None
   \<and> resolve_ref validationDefinitions prototypeReference = Inr emptyRule
   \<and> fst (buildYupSchema example_lib [(''name'', prototypeReference)] validationDefinitions)
       = [ConsoleWarn ''Unsupported validation type "undefined" for field "name". Using mixed().'']
   \<and> (\<exists>v. snd (buildYupSchema example_lib [(''name'', prototypeReference)] validationDefinitions) ''name''
            = Some v
          \<and> v JUndefined = ([], Ok) \<and> v (JStr ''x'') = ([], Ok))\<close>
proof -
  have 1: "ref prototypeReference = Some ''#/definitions/toString''"
    by (simp add: prototypeReference_def emptyRule_def)
  have 2: "js_replace ''#/definitions/toString'' ''#/definitions/'' '''' = ''toString''"
    by (simp add: js_replace_def)
  have 3: "validationDefinitions ''toString'' = None"
    by (simp add: validationDefinitions_def)
  have 4: "resolve_ref validationDefinitions prototypeReference = Inr emptyRule"
    unfolding resolve_ref_def 1 option.case Let_def 2 3
    by (simp add: Object_prototype_members_def prototypeReference_def emptyRule_def)
  have 5: \<open>compile_field example_lib ''name'' emptyRule =
      ([ConsoleWarn ''Unsupported validation type "undefined" for field "name". Using mixed().''],
       mixedValidatorDefault example_lib ''name'' emptyRule)\<close>
    by (simp add: compile_field_def unsupported_type_warning_def emptyRule_def)
  have 6: "mixedValidatorDefault example_lib ''name'' emptyRule x = ([], Ok)" for x
    by (simp add: mixedValidatorDefault_def baseValidator_def is_required_def emptyRule_def)
  have 7: "snd (buildYupSchema example_lib [(''name'', prototypeReference)] validationDefinitions) ''name''
      = Some (mixedValidatorDefault example_lib ''name'' emptyRule)"
    using buildYupSchema_shape[of "[(''name'', prototypeReference)]" "''name''" prototypeReference
        example_lib validationDefinitions]
    by (simp add: compiled_entry_def 4 5)
  have 8: \<open>fst (buildYupSchema example_lib [(''name'', prototypeReference)] validationDefinitions)
       = [ConsoleWarn ''Unsupported validation type "undefined" for field "name". Using mixed().'']\<close>
    by (simp add: buildYupSchema_diagnostics entry_diagnostics_def 4 5)
  show ?thesis
    unfolding 2 using 1 3 4 6 7 8 by simp
qed

text \<open>
  C8. A field whose resolved rule has a type other than \<open>string\<close>, \<open>number\<close> and
  \<open>date\<close> (\<open>boolean\<close>, any other name, or none) is compiled, with the warning on the
  console, to a validator that fails with the \<open>required\<close> message, as yup formats
  it, on \<open>""\<close>, \<open>null\<close> and \<open>undefined\<close> when the rule is required, and accepts
  every other value.
\<close>

theorem unsupported_type_only_required:
  assumes "distinct (map fst configSection)" and "(fieldName, rule) \<in> set configSection"
    and "resolve_ref definitions rule = Inr rules"
    and "type rules \<notin> {Some ''string'', Some ''number'', Some ''date''}"
  shows "unsupported_type_warning fieldName rules
           \<in> set (fst (buildYupSchema lib configSection definitions))
     \<and> (\<exists>v. snd (buildYupSchema lib configSection definitions) fieldName = Some v
          \<and> (\<forall>value. v value =
                ([], if (value = JStr [] \<or> value = JNull \<or> value = JUndefined)
                        \<and> required rules = Some True
                     then Fail (ValidationError Required
                                 (formatError lib Required NoArg fieldName value
                                    (requiredMessage fieldName rules)))
                     else Ok)))"
proof -
  have c: "compile_field lib fieldName rules =
      ([unsupported_type_warning fieldName rules], mixedValidatorDefault lib fieldName rules)"
    using assms(4) by (simp add: compile_field_def)
  have "entry_diagnostics lib definitions (fieldName, rule) = [unsupported_type_warning fieldName rules]"
    using assms(3) c by (simp add: entry_diagnostics_def)
  then have 1: "unsupported_type_warning fieldName rules
           \<in> set (fst (buildYupSchema lib configSection definitions))"
    using assms(2) by (force simp add: buildYupSchema_diagnostics)
  have 2: "snd (buildYupSchema lib configSection definitions) fieldName
      = Some (mixedValidatorDefault lib fieldName rules)"
    using buildYupSchema_shape[OF assms(1,2), of lib definitions] assms(3) c
    by (simp add: compiled_entry_def)
  have 3: "mixedValidatorDefault lib fieldName rules x =
                ([], if (x = JStr [] \<or> x = JNull \<or> x = JUndefined)
                        \<and> required rules = Some True
                     then Fail (ValidationError Required
                                 (formatError lib Required NoArg fieldName x
                                    (requiredMessage fieldName rules)))
                     else Ok)" for x
    by (simp add: mixedValidatorDefault_def baseValidator_def empty_or_nullish_def is_required_def)
  from 1 2 3 show ?thesis by blast
qed

theorem unsupported_type_only_required_witness:
  \<open>resolve_ref validationDefinitions booleanFlag = Inr booleanFlag
   \<and> type booleanFlag \<notin> {Some ''string'', Some ''number'', Some ''date''}
   \<and> ConsoleWarn ''Unsupported validation type "boolean" for field "flag". Using mixed().''
         \<in> set (fst (buildYupSchema example_lib [(''flag'', booleanFlag)] validationDefinitions))
   \<and> (\<exists>v. snd (buildYupSchema example_lib [(''flag'', booleanFlag)] validationDefinitions) ''flag'' = Some v
          \<and> v (JBool False) = ([], Ok) \<and> v (JStr ''yes'') = ([], Ok) \<and> v (JNum 0) = ([], Ok)
          \<and> v (JStr '''') = ([], Fail (ValidationError Required ''flag is required'')))\<close>
proof -
  have 1: "distinct (map fst [(''flag'', booleanFlag)])"
    by simp
  have 2: "(''flag'', booleanFlag) \<in> set [(''flag'', booleanFlag)]"
    by simp
  have 3: "resolve_ref validationDefinitions booleanFlag = Inr booleanFlag"
    by (simp add: resolve_ref_def booleanFlag_def emptyRule_def)
  have 4: "type booleanFlag \<notin> {Some ''string'', Some ''number'', Some ''date''}"
    by (simp add: booleanFlag_def emptyRule_def)
  have 5: \<open>unsupported_type_warning ''flag'' booleanFlag =
      ConsoleWarn ''Unsupported validation type "boolean" for field "flag". Using mixed().''\<close>
    by (simp add: unsupported_type_warning_def booleanFlag_def emptyRule_def)
  have 6: "requiredMessage ''flag'' booleanFlag = ''flag is required''"
    by (simp add: requiredMessage_def js_or_def booleanFlag_def emptyRule_def toLowerCase_def
        space_before_capitals_def isUpperAZ_def toLowerCase_char_def)
  have 7: "required booleanFlag = Some True"
    by (simp add: booleanFlag_def emptyRule_def)
  have 8: "formatError example_lib Required NoArg ''flag'' x ''flag is required'' = ''flag is required''"
    for x
    by (simp add: formatError_plain)
  show ?thesis
    using 3 4 unsupported_type_only_required[where lib = example_lib, OF 1 2 3 4]
    unfolding 5 6 7 8 by auto
qed

section \<open>Properties of the string validators\<close>

lemma trim_blank: "list_all isWhiteSpace s \<Longrightarrow> trim s = []"
proof -
  assume "list_all isWhiteSpace s"
  then have d: "dropWhile isWhiteSpace s = []"
    by (simp only: dropWhile_eq_Nil_conv list_all_iff)
  show ?thesis
    unfolding trim_def d by simp
qed

text \<open>
  C6, as the program has it. The validator compiled from a string rule with
  \<open>required = true\<close>, applied to the empty string, to a string of white space only, to
  \<open>null\<close> or to \<open>undefined\<close>, fails with the \<open>required\<close> test. Its message is made
  from \<open>errorMessageRequired\<close> of the rule or, when the rule has none (or an empty
  one), from the field name in lower case words followed by "is required": it is this
  text as yup formats it, with every parameter \<open>${name}\<close> replaced by its printed
  value, and the text itself when it holds no \<open>$\<close>.
\<close>

theorem required_string_rejects_blank:
  assumes "type rules = Some ''string''" and "required rules = Some True"
    and "value = JNull \<or> value = JUndefined \<or> (\<exists>s. value = JStr s \<and> list_all isWhiteSpace s)"
  shows "\<exists>template.
       template =
         (case errorMessageRequired rules of
            None \<Rightarrow> toLowerCase (space_before_capitals fieldName) @ '' is required''
          | Some m \<Rightarrow>
              if m = [] then toLowerCase (space_before_capitals fieldName) @ '' is required''
              else m)
     \<and> snd (compile_field lib fieldName rules) value =
         ([], Fail (ValidationError Required
                      (formatError lib Required NoArg fieldName value template)))
     \<and> (CHR ''$'' \<notin> set template \<longrightarrow>
          snd (compile_field lib fieldName rules) value =
            ([], Fail (ValidationError Required template)))"
proof -
  have b: "blank_or_nullish value"
    using assms(3) by (auto simp add: trim_blank)
  have "baseValidator lib fieldName blank_or_nullish True (requiredMessage fieldName rules) value =
      Inl (ValidationError Required
             (formatError lib Required NoArg fieldName value (requiredMessage fieldName rules)))"
    using b by (simp add: baseValidator_def)
  then have "snd (compile_field lib fieldName rules) value =
      ([], Fail (ValidationError Required
             (formatError lib Required NoArg fieldName value (requiredMessage fieldName rules))))"
    using assms(1,2) by (simp add: compile_field_def string_validator_def is_required_def)
  then show ?thesis
    by (simp add: requiredMessage_def js_or_def formatError_plain)
qed

theorem required_string_rejects_blank_witness:
  "type routingNumber = Some ''string'' \<and> required routingNumber = Some True
   \<and> list_all isWhiteSpace ''   ''
   \<and> CHR ''$'' \<notin> set ''Routing number is required.''
   \<and> snd (compile_field example_lib ''routingNumber'' routingNumber) (JStr ''   '')
       = ([], Fail (ValidationError Required ''Routing number is required.''))
   \<and> snd (compile_field example_lib ''routingNumber'' routingNumber) (JStr '''')
       = ([], Fail (ValidationError Required ''Routing number is required.''))
   \<and> snd (compile_field example_lib ''routingNumber'' routingNumber) JNull
       = ([], Fail (ValidationError Required ''Routing number is required.''))
   \<and> snd (compile_field example_lib ''routingNumber'' routingNumberPlain) JUndefined
       = ([], Fail (ValidationError Required ''routing number is required''))"
proof -
  have 1: "type routingNumber = Some ''string''" and 2: "required routingNumber = Some True"
    and 3: "errorMessageRequired routingNumber = Some ''Routing number is required.''"
    by (simp_all add: routingNumber_def emptyRule_def)
  have 4: "type routingNumberPlain = Some ''string''" and 5: "required routingNumberPlain = Some True"
    and 6: "errorMessageRequired routingNumberPlain = None"
    by (simp_all add: routingNumberPlain_def emptyRule_def)
  have 7: "list_all isWhiteSpace ''   ''" and 8: "list_all isWhiteSpace ''''"
    by (simp_all add: isWhiteSpace_def)
  have 9: "toLowerCase (space_before_capitals ''routingNumber'') = ''routing number''"
    by code_simp
  have a: "snd (compile_field example_lib ''routingNumber'' routingNumber) (JStr ''   '')
       = ([], Fail (ValidationError Required ''Routing number is required.''))"
    using required_string_rejects_blank[OF 1 2, of "JStr ''   ''" "''routingNumber''" example_lib] 7
    unfolding 3 by auto
  have b: "snd (compile_field example_lib ''routingNumber'' routingNumber) (JStr '''')
       = ([], Fail (ValidationError Required ''Routing number is required.''))"
    using required_string_rejects_blank[OF 1 2, of "JStr ''''" "''routingNumber''" example_lib]
    unfolding 3 by auto
  have c: "snd (compile_field example_lib ''routingNumber'' routingNumber) JNull
       = ([], Fail (ValidationError Required ''Routing number is required.''))"
    using required_string_rejects_blank[OF 1 2, of JNull "''routingNumber''" example_lib]
    unfolding 3 by auto
  have d: "snd (compile_field example_lib ''routingNumber'' routingNumberPlain) JUndefined
       = ([], Fail (ValidationError Required ''routing number is required''))"
    using required_string_rejects_blank[OF 4 5, of JUndefined "''routingNumber''" example_lib]
    unfolding 6 9 by auto
  from 1 2 7 a b c d show ?thesis
    by simp
qed

text \<open>
  C6 as the claim has it fails: the message is not always the template of the rule. With
  \<open>errorMessageRequired\<close> \<open>${path} is required\<close>, the required failure of the field
  \<open>account\<close> has the message "account is required".
\<close>

theorem required_message_counterexample:
  "type pathTemplate = Some ''string'' \<and> required pathTemplate = Some True
   \<and> errorMessageRequired pathTemplate = Some ''${path} is required''
   \<and> snd (compile_field example_lib ''account'' pathTemplate) (JStr ''   '')
       = ([], Fail (ValidationError Required ''account is required''))"
proof -
  have a: "type pathTemplate = Some ''string''" "required pathTemplate = Some True"
    "errorMessageRequired pathTemplate = Some ''${path} is required''"
    by (simp_all add: pathTemplate_def emptyRule_def)
  have t: "trim ''   '' = []"
    by (simp add: trim_blank isWhiteSpace_def)
  have p: "yupParam example_lib Required NoArg ''account'' (JStr ''   '') ''path'' = ''account''"
    by (simp add: example_lib_def example_param_def)
  have f: "formatError example_lib Required NoArg ''account'' (JStr ''   '') ''${path} is required''
      = ''account is required''"
    by (simp add: formatError_def match_param_def isWhiteSpace_def isWordChar_def p)
  have "snd (compile_field example_lib ''account'' pathTemplate) (JStr ''   '')
       = ([], Fail (ValidationError Required ''account is required''))"
    by (simp add: compile_field_def string_validator_def baseValidator_def is_required_def
        requiredMessage_def js_or_def a t f)
  with a show ?thesis by simp
qed

lemma run_tests_append:
  "run_tests fmt (xs @ ys) v =
     (case run_tests fmt xs v of Inr w \<Rightarrow> run_tests fmt ys v | Inl e \<Rightarrow> Inl e)"
  by (induction fmt xs v rule: run_tests.induct) simp_all

lemma string_schema_closed:
  "snd (string_schema lib fieldName rules) =
     \<lparr>typeName = ''string'', typeErrorMessage = stringTypeMessage rules,
      whitelist = (case allowedValues rules of
                     None \<Rightarrow> None
                   | Some vals \<Rightarrow> Some (vals, ValuesArg vals, allowedValuesMessage rules vals)),
      tests =
        (case minLength rules of
           None \<Rightarrow> []
         | Some n \<Rightarrow> [(Min, LengthArg n, \<lambda>v. int (length v) \<ge> n, minLengthMessage rules n)])
        @ (case maxLength rules of
             None \<Rightarrow> []
           | Some n \<Rightarrow> [(Max, LengthArg n, \<lambda>v. int (length v) \<le> n, maxLengthMessage rules n)])
        @ (case pattern rules of
             None \<Rightarrow> []
           | Some p \<Rightarrow>
               if p = [] then []
               else (case RegExp lib p of
                       None \<Rightarrow> []
                     | Some re \<Rightarrow> [(Matches, PatternArg p, re, patternMessage rules)]))\<rparr>"
  by (simp add: string_schema_def Let_def typeError_def yup_string_def yup_schema_def string_min_def
      string_max_def matches_def oneOf_def add_test_def split: option.splits)

lemma string_schema_diagnostics:
  "fst (string_schema lib fieldName rules) =
     (case pattern rules of
        None \<Rightarrow> []
      | Some p \<Rightarrow>
          if p \<noteq> [] \<and> RegExp lib p = None
          then [ConsoleError (''Invalid regex pattern for field '' @ fieldName @ '': '' @ p)]
          else [])"
  by (simp add: string_schema_def Let_def split: option.splits)

text \<open>
  The error that \<open>validateSync\<close> of line 106 throws, by the first check that fails, with
  the message as it is handed to yup and then formatted.
\<close>

lemma string_check_closed:
  "string_check lib fieldName rules value =
     (case string_cast lib (trimmedValue value) of
        None \<Rightarrow>
          Inl (ValidationError TypeError
                 (formatError lib TypeError (TypeArg ''string'') fieldName value
                    (stringTypeMessage rules)))
      | Some s \<Rightarrow>
          if \<not> allowedValues_ok rules s
          then Inl (ValidationError OneOf
                      (formatError lib OneOf (ValuesArg (the (allowedValues rules))) fieldName value
                         (allowedValuesMessage rules (the (allowedValues rules)))))
          else if \<not> minLength_ok rules s
          then Inl (ValidationError Min
                      (formatError lib Min (LengthArg (the (minLength rules))) fieldName value
                         (minLengthMessage rules (the (minLength rules)))))
          else if \<not> maxLength_ok rules s
          then Inl (ValidationError Max
                      (formatError lib Max (LengthArg (the (maxLength rules))) fieldName value
                         (maxLengthMessage rules (the (maxLength rules)))))
          else if \<not> pattern_ok lib rules s
          then Inl (ValidationError Matches
                      (formatError lib Matches (PatternArg (the (pattern rules))) fieldName value
                         (patternMessage rules)))
          else Inr s)"
proof (cases "string_cast lib (trimmedValue value)")
  case None
  then show ?thesis
    by (simp add: string_check_def validateSync_def string_schema_closed)
next
  case (Some s)
  let ?fmt = "\<lambda>kind arg. formatError lib kind arg fieldName value"
  have t: "run_tests ?fmt (tests (snd (string_schema lib fieldName rules))) s =
      (if \<not> minLength_ok rules s
       then Inl (ValidationError Min
                   (formatError lib Min (LengthArg (the (minLength rules))) fieldName value
                      (minLengthMessage rules (the (minLength rules)))))
       else if \<not> maxLength_ok rules s
       then Inl (ValidationError Max
                   (formatError lib Max (LengthArg (the (maxLength rules))) fieldName value
                      (maxLengthMessage rules (the (maxLength rules)))))
       else if \<not> pattern_ok lib rules s
       then Inl (ValidationError Matches
                   (formatError lib Matches (PatternArg (the (pattern rules))) fieldName value
                      (patternMessage rules)))
       else Inr s)"
    by (simp add: string_schema_closed run_tests_append minLength_ok_def maxLength_ok_def pattern_ok_def
        split: option.splits)
  show ?thesis
    unfolding string_check_def validateSync_def Some option.case t
    by (simp add: string_schema_closed allowedValues_ok_def split: option.splits)
qed

lemma string_validator_absent:
  "blank_or_nullish value \<Longrightarrow>
   string_validator lib fieldName rules value =
     ([], if required rules = Some True
          then Fail (ValidationError Required
                       (formatError lib Required NoArg fieldName value
                          (requiredMessage fieldName rules)))
          else Ok)"
  by (cases "value") (simp_all add: string_validator_def baseValidator_def is_required_def string_test_def)

lemma string_validator_present:
  "\<not> blank_or_nullish value \<Longrightarrow>
   string_validator lib fieldName rules value =
     (fst (string_schema lib fieldName rules),
      caught lib (''is-string-and-valid-'' @ fieldName) fieldName value
        (string_check lib fieldName rules value))"
  by (cases "value")
    (simp_all add: string_validator_def baseValidator_def string_test_def string_check_def
      caught_def split_beta split: sum.splits)

text \<open>
  C5, as the program has it. On a present value the checks of a string field run in this
  order: the type check (the value, after yup has converted a number or a boolean to its
  string, must be a string), then the membership in \<open>allowedValues\<close>, then \<open>minLength\<close>,
  \<open>maxLength\<close> and \<open>pattern\<close>, all on the trimmed string; the first check that fails
  is the one reported, and the validator returns its message.
\<close>

theorem string_checks_order:
  assumes "type rules = Some ''string''" and "\<not> blank_or_nullish value"
  shows "failed_check (string_check lib fieldName rules value) =
           (case string_cast lib (trimmedValue value) of
              None \<Rightarrow> Some TypeError
            | Some s \<Rightarrow>
                if \<not> allowedValues_ok rules s then Some OneOf
                else if \<not> minLength_ok rules s then Some Min
                else if \<not> maxLength_ok rules s then Some Max
                else if \<not> pattern_ok lib rules s then Some Matches
                else None)
     \<and> snd (snd (compile_field lib fieldName rules) value) =
           (case string_check lib fieldName rules value of
              Inr v \<Rightarrow> Ok
            | Inl err \<Rightarrow>
                Fail (createError lib (''is-string-and-valid-'' @ fieldName) fieldName value
                        (message err)))"
proof -
  have 1: "failed_check (string_check lib fieldName rules value) =
           (case string_cast lib (trimmedValue value) of
              None \<Rightarrow> Some TypeError
            | Some s \<Rightarrow>
                if \<not> allowedValues_ok rules s then Some OneOf
                else if \<not> minLength_ok rules s then Some Min
                else if \<not> maxLength_ok rules s then Some Max
                else if \<not> pattern_ok lib rules s then Some Matches
                else None)"
    unfolding string_check_closed by (simp add: failed_check_def split: option.splits)
  have 2: "snd (compile_field lib fieldName rules) = string_validator lib fieldName rules"
    using assms(1) by (simp add: compile_field_def)
  show ?thesis
    unfolding 2 string_validator_present[OF assms(2)] using 1
    by (simp add: caught_def split: sum.splits)
qed

lemma currencyMax3_attributes:
  "type currencyMax3 = Some ''string''" "required currencyMax3 = Some True"
  "minLength currencyMax3 = None" "maxLength currencyMax3 = Some 3" "pattern currencyMax3 = None"
  "allowedValues currencyMax3 = Some [''USD'', ''CAD'', ''EUR'']"
  "errorMessageAllowedValues currencyMax3 = Some ''Invalid currency. Allowed: {allowedValues}.''"
  "errorMessageMaxLength currencyMax3 = None" "errorMessageType currencyMax3 = None"
  by (simp_all add: currencyMax3_def currency_def emptyRule_def)

lemma trim_USDX: "trim '' USDX '' = ''USDX''"
  by (simp add: trim_def isWhiteSpace_def)

theorem string_checks_order_witness:
  "type currencyMax3 = Some ''string'' \<and> \<not> blank_or_nullish (JStr '' USDX '')
   \<and> failed_check (string_check example_lib ''currency'' currencyMax3 (JStr '' USDX '')) = Some OneOf
   \<and> (\<exists>m. snd (snd (compile_field example_lib ''currency'' currencyMax3) (JStr '' USDX ''))
             = Fail (ValidationError (TestName ''is-string-and-valid-currency'') m))"
proof -
  have 1: "type currencyMax3 = Some ''string''"
    by (rule currencyMax3_attributes)
  have 2: "\<not> blank_or_nullish (JStr '' USDX '')"
    by (simp add: trim_USDX)
  have 3: "string_cast example_lib (trimmedValue (JStr '' USDX '')) = Some ''USDX''"
    by (simp add: trimmedValue_def trim_USDX)
  have 4: "\<not> allowedValues_ok currencyMax3 ''USDX''"
    by (simp add: allowedValues_ok_def currencyMax3_attributes)
  from string_checks_order[OF 1 2, of example_lib "''currency''"]
  have 5: "failed_check (string_check example_lib ''currency'' currencyMax3 (JStr '' USDX '')) = Some OneOf"
    and 6: "snd (snd (compile_field example_lib ''currency'' currencyMax3) (JStr '' USDX '')) =
           (case string_check example_lib ''currency'' currencyMax3 (JStr '' USDX '') of
              Inr v \<Rightarrow> Ok
            | Inl err \<Rightarrow>
                Fail (createError example_lib (''is-string-and-valid-'' @ ''currency'') ''currency''
                        (JStr '' USDX '') (message err)))"
    unfolding 3 using 4 by simp_all
  from 5 obtain err where 7: "string_check example_lib ''currency'' currencyMax3 (JStr '' USDX '') = Inl err"
    by (cases "string_check example_lib ''currency'' currencyMax3 (JStr '' USDX '')")
      (simp_all add: failed_check_def)
  show ?thesis
    using 1 2 5 6 unfolding 7 by (simp add: createError_def)
qed

text \<open>
  C5 as the claim has it fails: on \<open>" USDX "\<close>, with \<open>maxLength\<close> 3 and the three
  currencies allowed, both the length check and the membership check fail on the trimmed
  string; the claim's order reports \<open>maxLength\<close>, the program reports \<open>allowedValues\<close>.
  And a number is not rejected by the type check: \<open>5\<close> is validated as the string of
  its digits.
\<close>

theorem string_checks_order_counterexample:
  "\<not> maxLength_ok currencyMax3 (trim '' USDX '')
   \<and> \<not> allowedValues_ok currencyMax3 (trim '' USDX '')
   \<and> string_check example_lib ''currency'' currencyMax3 (JStr '' USDX '')
       = Inl (ValidationError OneOf ''Invalid currency. Allowed: USD, CAD, EUR.'')
   \<and> string_validator example_lib ''currency'' currencyMax3 (JStr '' USDX '')
       = ([], Fail (ValidationError (TestName ''is-string-and-valid-currency'')
                     ''Invalid currency. Allowed: USD, CAD, EUR.''))
   \<and> string_check example_lib ''memo'' memo (JNum 5) = Inr ''5''"
proof -
  have 1: "\<not> maxLength_ok currencyMax3 (trim '' USDX '')"
    by (simp add: trim_USDX maxLength_ok_def currencyMax3_attributes)
  have 2: "\<not> allowedValues_ok currencyMax3 (trim '' USDX '')"
    by (simp add: trim_USDX allowedValues_ok_def currencyMax3_attributes)
  have m: "allowedValuesMessage currencyMax3 [''USD'', ''CAD'', ''EUR'']
            = ''Invalid currency. Allowed: USD, CAD, EUR.''"
    by (simp add: allowedValuesMessage_def js_or_def js_replace_def currencyMax3_attributes)
  have 3: "string_check example_lib ''currency'' currencyMax3 (JStr '' USDX '')
       = Inl (ValidationError OneOf ''Invalid currency. Allowed: USD, CAD, EUR.'')"
    unfolding string_check_closed using 2
    by (simp add: trimmedValue_def currencyMax3_attributes m formatError_plain)
  have 4: "string_validator example_lib ''currency'' currencyMax3 (JStr '' USDX '')
       = ([], Fail (ValidationError (TestName ''is-string-and-valid-currency'')
                     ''Invalid currency. Allowed: USD, CAD, EUR.''))"
    by (simp add: string_validator_present trim_USDX 3 string_schema_diagnostics currencyMax3_attributes
        caught_def createError_plain)
  have d: "digits 5 = ''5''"
    by code_simp
  have 5: "string_check example_lib ''memo'' memo (JNum 5) = Inr ''5''"
    unfolding string_check_closed
    by (simp add: trimmedValue_def example_lib_def String_int_def d allowedValues_ok_def minLength_ok_def
        maxLength_ok_def pattern_ok_def memo_def emptyRule_def)
  from 1 2 3 4 5 show ?thesis by blast
qed

text \<open>
  C7, as the program has it. When the pattern of a string rule is not a regular expression
  (\<open>new RegExp\<close> throws), compiling the field writes nothing to the console and the
  field is in the returned mapping; its validator, each time it is applied to a present
  value, writes the error to the console and returns what the validator of the same rule
  without the pattern returns, so that the other constraints run; on an absent value it
  writes nothing.
\<close>

theorem invalid_pattern_is_skipped:
  assumes "distinct (map fst configSection)" and "(fieldName, rule) \<in> set configSection"
    and "resolve_ref definitions rule = Inr rules"
    and "type rules = Some ''string''" and "pattern rules = Some p" and "p \<noteq> []"
    and "RegExp lib p = None"
  shows "entry_diagnostics lib definitions (fieldName, rule) = []
     \<and> (\<exists>v. snd (buildYupSchema lib configSection definitions) fieldName = Some v
          \<and> (\<forall>value. v value =
                (if blank_or_nullish value then []
                 else [ConsoleError (''Invalid regex pattern for field '' @ fieldName @ '': '' @ p)],
                 snd (snd (compile_field lib fieldName (rules\<lparr>pattern := None\<rparr>)) value))))"
proof -
  let ?rules' = "rules\<lparr>pattern := None\<rparr>"
  have c: "compile_field lib fieldName rules = ([], string_validator lib fieldName rules)"
    and c': "compile_field lib fieldName ?rules' = ([], string_validator lib fieldName ?rules')"
    using assms(4) by (simp_all add: compile_field_def)
  have 1: "entry_diagnostics lib definitions (fieldName, rule) = []"
    using assms(3) c by (simp add: entry_diagnostics_def)
  have 2: "snd (buildYupSchema lib configSection definitions) fieldName
      = Some (string_validator lib fieldName rules)"
    using buildYupSchema_shape[OF assms(1,2), of lib definitions] assms(3) c
    by (simp add: compiled_entry_def)
  have d: "fst (string_schema lib fieldName rules) =
      [ConsoleError (''Invalid regex pattern for field '' @ fieldName @ '': '' @ p)]"
    using assms(5-7) by (simp add: string_schema_diagnostics)
  have k: "string_check lib fieldName rules x = string_check lib fieldName ?rules' x" for x
    unfolding string_check_closed using assms(5-7)
    by (simp add: pattern_ok_def minLength_ok_def maxLength_ok_def allowedValues_ok_def
        stringTypeMessage_def minLengthMessage_def maxLengthMessage_def patternMessage_def
        allowedValuesMessage_def cong: option.case_cong if_cong)
  have 3: "string_validator lib fieldName rules x =
      (if blank_or_nullish x then []
       else [ConsoleError (''Invalid regex pattern for field '' @ fieldName @ '': '' @ p)],
       snd (snd (compile_field lib fieldName ?rules') x))" for x
  proof (cases "blank_or_nullish x")
    case True
    then show ?thesis
      unfolding c' by (simp add: string_validator_absent requiredMessage_def)
  next
    case False
    then show ?thesis
      unfolding c' by (simp add: string_validator_present d k)
  qed
  from 1 2 3 show ?thesis by blast
qed

lemma brokenPattern_attributes:
  "type brokenPattern = Some ''string''" "required brokenPattern = Some True"
  "minLength brokenPattern = Some 2" "maxLength brokenPattern = None"
  "pattern brokenPattern = Some ''(''" "allowedValues brokenPattern = None"
  "errorMessageMinLength brokenPattern = None" "ref brokenPattern = None"
  by (simp_all add: brokenPattern_def emptyRule_def)

lemma example_lib_rejects_paren: "RegExp example_lib ''('' = None"
  by (simp add: example_lib_def)

lemma digits_2: "digits 2 = ''2''"
  by code_simp

theorem invalid_pattern_is_skipped_witness:
  "resolve_ref Map.empty brokenPattern = Inr brokenPattern
   \<and> type brokenPattern = Some ''string'' \<and> pattern brokenPattern = Some ''(''
   \<and> RegExp example_lib ''('' = None
   \<and> (\<exists>v. snd (buildYupSchema example_lib [(''code'', brokenPattern)] Map.empty) ''code'' = Some v
          \<and> v (JStr ''a'') = ([ConsoleError ''Invalid regex pattern for field code: (''],
                               Fail (ValidationError (TestName ''is-string-and-valid-code'')
                                       ''Minimum length is 2''))
          \<and> v (JStr ''ab'') = ([ConsoleError ''Invalid regex pattern for field code: (''], Ok))"
proof -
  have 1: "distinct (map fst [(''code'', brokenPattern)])"
    and 2: "(''code'', brokenPattern) \<in> set [(''code'', brokenPattern)]"
    by simp_all
  have 3: "resolve_ref Map.empty brokenPattern = Inr brokenPattern"
    by (simp add: resolve_ref_def brokenPattern_attributes)
  have 4: "type brokenPattern = Some ''string''" and 5: "pattern brokenPattern = Some ''(''"
    by (rule brokenPattern_attributes)+
  have 6: "''('' \<noteq> []"
    by simp
  have a: "\<not> blank_or_nullish (JStr ''a'')" and b: "\<not> blank_or_nullish (JStr ''ab'')"
    by (simp_all add: trim_def isWhiteSpace_def)
  have ta: "trimmedValue (JStr ''a'') = JStr ''a''" and tb: "trimmedValue (JStr ''ab'') = JStr ''ab''"
    by (simp_all add: trimmedValue_def trim_def isWhiteSpace_def)
  have t: "type (brokenPattern\<lparr>pattern := None\<rparr>) = Some ''string''"
    by (simp add: brokenPattern_attributes)
  have m: "minLengthMessage (brokenPattern\<lparr>pattern := None\<rparr>) 2 = ''Minimum length is 2''"
    by (simp add: minLengthMessage_def js_or_def js_replace_def brokenPattern_attributes String_int_def
        digits_2)
  have ka: "string_check example_lib ''code'' (brokenPattern\<lparr>pattern := None\<rparr>) (JStr ''a'')
      = Inl (ValidationError Min ''Minimum length is 2'')"
    unfolding string_check_closed ta
    by (simp add: allowedValues_ok_def minLength_ok_def brokenPattern_attributes m formatError_plain)
  have kb: "string_check example_lib ''code'' (brokenPattern\<lparr>pattern := None\<rparr>) (JStr ''ab'')
      = Inr ''ab''"
    unfolding string_check_closed tb
    by (simp add: allowedValues_ok_def minLength_ok_def maxLength_ok_def pattern_ok_def
        brokenPattern_attributes)
  have va: "snd (snd (compile_field example_lib ''code'' (brokenPattern\<lparr>pattern := None\<rparr>)) (JStr ''a''))
      = Fail (ValidationError (TestName ''is-string-and-valid-code'') ''Minimum length is 2'')"
    using t by (simp add: compile_field_def string_validator_present[OF a] ka caught_def createError_plain)
  have vb: "snd (snd (compile_field example_lib ''code'' (brokenPattern\<lparr>pattern := None\<rparr>)) (JStr ''ab'')) = Ok"
    using t by (simp add: compile_field_def string_validator_present[OF b] kb caught_def)
  show ?thesis
    using 3 4 5 example_lib_rejects_paren a b
      invalid_pattern_is_skipped[OF 1 2 3 4 5 6 example_lib_rejects_paren]
    unfolding va[symmetric] vb[symmetric] by auto
qed

text \<open>
  C7 as the claim has it fails: compiling a document whose only field has a pattern that
  is not a regular expression writes nothing to the console.
\<close>

theorem invalid_pattern_compile_counterexample:
  "pattern brokenPattern = Some ''('' \<and> RegExp example_lib ''('' = None
   \<and> fst (buildYupSchema example_lib [(''code'', brokenPattern)] Map.empty) = []"
proof -
  have "resolve_ref Map.empty brokenPattern = Inr brokenPattern"
    by (simp add: resolve_ref_def brokenPattern_attributes)
  then have "entry_diagnostics example_lib Map.empty (''code'', brokenPattern) = []"
    by (simp add: entry_diagnostics_def compile_field_def brokenPattern_attributes)
  then show ?thesis
    by (simp add: buildYupSchema_diagnostics brokenPattern_attributes example_lib_rejects_paren)
qed

section \<open>Properties of the number and date validators\<close>

lemma number_check_closed:
  "number_check lib fieldName rules value =
     (case toNumber lib value of
        None \<Rightarrow>
          Inl (ValidationError TypeError
                 (formatError lib TypeError (TypeArg ''number'') fieldName value
                    (numberTypeMessage rules)))
      | Some x \<Rightarrow>
          if \<not> minValue_ok rules x
          then Inl (ValidationError Min
                      (formatError lib Min (NumberArg (the (minValue rules))) fieldName value
                         (minValueMessage lib rules (the (minValue rules)))))
          else if \<not> maxValue_ok rules x
          then Inl (ValidationError Max
                      (formatError lib Max (NumberArg (the (maxValue rules))) fieldName value
                         (maxValueMessage lib rules (the (maxValue rules)))))
          else Inr x)"
  by (simp add: number_check_def validateSync_def number_schema_def Let_def typeError_def yup_number_def
      yup_schema_def number_min_def number_max_def add_test_def minValue_ok_def maxValue_ok_def
      split: option.splits)

lemma number_validator_absent:
  "empty_or_nullish value \<Longrightarrow>
   number_validator lib fieldName rules value =
     ([], if required rules = Some True
          then Fail (ValidationError Required
                       (formatError lib Required NoArg fieldName value
                          (requiredMessage fieldName rules)))
          else Ok)"
  by (auto simp add: number_validator_def baseValidator_def is_required_def number_test_def
      empty_or_nullish_def)

lemma number_validator_present:
  "\<not> empty_or_nullish value \<Longrightarrow>
   number_validator lib fieldName rules value =
     ([], caught lib (''is-number-and-valid-'' @ fieldName) fieldName value
            (number_check lib fieldName rules value))"
  by (simp add: number_validator_def baseValidator_def number_test_def number_check_def
      empty_or_nullish_def caught_def split: sum.splits)

lemma date_ge_startOfDay:
  "isValid a \<Longrightarrow> isValid b \<Longrightarrow> date_ge a (startOfDay b) = (\<not> earlier_day a b)"
  by (cases a; cases b) (auto simp add: isValid_def earlier_day_def)

lemma date_check_closed:
  assumes "isValid parsed"
  shows "date_check lib fieldName rules value parsed =
     (if minDate rules = Some ''today'' \<and> \<not> date_ge parsed (startOfDay (now lib))
      then Inl (ValidationError Min
                  (formatError lib Min (DateArg (startOfDay (now lib))) fieldName value
                     (js_or (errorMessageMinDate rules) ''Date cannot be in the past.'')))
      else Inr parsed)"
  using assms
  by (simp add: date_check_def finalDateCheckSchema_def validateSync_def date_cast_def Let_def
      typeError_def yup_date_def yup_schema_def date_min_def add_test_def)

lemma date_validator_absent:
  "empty_or_nullish value \<Longrightarrow>
   date_validator lib fieldName rules value =
     ([], if required rules = Some True
          then Fail (ValidationError Required
                       (formatError lib Required NoArg fieldName value
                          (requiredMessage fieldName rules)))
          else Ok)"
  by (auto simp add: date_validator_def baseValidator_def is_required_def date_test_def
      empty_or_nullish_def)

lemma date_validator_string:
  assumes "s \<noteq> []"
  shows "date_validator lib fieldName rules (JStr s) =
     ([],
      if \<not> isValid (parseISO lib s)
      then date_error lib fieldName (JStr s)
             (js_or (errorMessageType rules) ''Please enter a valid date.'')
      else if customRule rules = Some ''noWeekendOrHoliday''
              \<and> (isWeekend (parseISO lib s) \<or> isPublicHoliday lib (parseISO lib s))
      then date_error lib fieldName (JStr s)
             (js_or (errorMessageCustomRule rules) ''Date cannot be a weekend or public holiday.'')
      else caught lib (''is-date-and-valid-'' @ fieldName) fieldName (JStr s)
             (date_check lib fieldName rules (JStr s) (parseISO lib s)))"
  using assms
  by (auto simp add: date_validator_def baseValidator_def date_test_def empty_or_nullish_def Let_def
      date_check_def caught_def date_error_def split: sum.splits)

lemma date_validator_other:
  assumes "\<not> empty_or_nullish value" and "\<forall>s. value \<noteq> JStr s"
  shows "date_validator lib fieldName rules value =
     ([], date_error lib fieldName value
            (js_or (errorMessageType rules) ''Date must be a valid string input.''))"
  using assms
  by (cases "value")
    (simp_all add: date_validator_def baseValidator_def date_test_def empty_or_nullish_def)

text \<open>
  C1, as the program has it. With \<open>minDate: "today"\<close> and
  \<open>customRule: "noWeekendOrHoliday"\<close>, a date that parses is checked against the custom
  rule first and against \<open>minDate\<close> second, and the first failure is returned: a weekend
  or a holiday fails with the message of the custom rule, also when its day is before
  today; any other date fails with the message of \<open>minDate\<close> exactly when its calendar
  day is before today's, so that today itself passes. The messages are formatted by yup:
  the one of \<open>minDate\<close> for the error that \<open>validateSync\<close> throws, and both for the
  error that the test of the field returns.
\<close>

theorem date_checks_order:
  assumes "type rules = Some ''date''" and "minDate rules = Some ''today''"
    and "customRule rules = Some ''noWeekendOrHoliday''"
    and "s \<noteq> []" and "isValid (parseISO lib s)" and "isValid (now lib)"
  shows "snd (snd (compile_field lib fieldName rules) (JStr s)) =
     (if isWeekend (parseISO lib s) \<or> isPublicHoliday lib (parseISO lib s)
      then Fail (createError lib (''is-date-and-valid-'' @ fieldName) fieldName (JStr s)
                  (js_or (errorMessageCustomRule rules) ''Date cannot be a weekend or public holiday.''))
      else if earlier_day (parseISO lib s) (now lib)
      then Fail (createError lib (''is-date-and-valid-'' @ fieldName) fieldName (JStr s)
                  (formatError lib Min (DateArg (startOfDay (now lib))) fieldName (JStr s)
                     (js_or (errorMessageMinDate rules) ''Date cannot be in the past.'')))
      else Ok)"
proof -
  have "snd (compile_field lib fieldName rules) = date_validator lib fieldName rules"
    using assms(1) by (simp add: compile_field_def)
  then show ?thesis
    using assms(2,3,5,6)
    by (simp add: date_validator_string[OF assms(4)] date_check_closed date_ge_startOfDay
        date_error_def caught_def)
qed

lemma validDate_attributes:
  "type validDate = Some ''date''" "required validDate = Some True"
  "minDate validDate = Some ''today''" "customRule validDate = Some ''noWeekendOrHoliday''"
  "errorMessageType validDate = Some ''Please enter a valid date.''"
  "errorMessageMinDate validDate = Some ''Transfer date cannot be in the past.''"
  "errorMessageCustomRule validDate = Some ''Transfer date cannot be a weekend or public holiday.''"
  by (simp_all add: validDate_def emptyRule_def)

lemma example_dates:
  "parseISO example_lib ''2025-06-07'' = Date 2025 6 7 0"
  "parseISO example_lib ''2025-06-10'' = Date 2025 6 10 0"
  "parseISO example_lib ''2025-06-11'' = Date 2025 6 11 0"
  "now example_lib = Date 2025 6 11 34200000"
  by (simp_all add: parseISO_def parse_calendar_date_def isDigit_def digitVal_def valid_ymd_def
      daysInMonth_def example_lib_def)

lemma example_weekdays:
  "isWeekend (Date 2025 6 7 0)" "\<not> isWeekend (Date 2025 6 10 0)" "\<not> isWeekend (Date 2025 6 11 0)"
  by (simp_all add: isWeekend_def isValid_def days_from_civil_def)

lemma example_no_holidays:
  "\<not> isPublicHoliday example_lib (Date 2025 6 10 0)" "\<not> isPublicHoliday example_lib (Date 2025 6 11 0)"
  by (simp_all add: isPublicHoliday_days valid_ymd_def daysInMonth_def US_HOLIDAYS_2025_dates
      eraYear_def)

theorem date_checks_order_witness:
  "type validDate = Some ''date'' \<and> minDate validDate = Some ''today''
   \<and> customRule validDate = Some ''noWeekendOrHoliday''
   \<and> isValid (parseISO example_lib ''2025-06-11'') \<and> isValid (now example_lib)
   \<and> startOfDay (parseISO example_lib ''2025-06-11'') = startOfDay (now example_lib)
   \<and> snd (snd (compile_field example_lib ''transferDate'' validDate) (JStr ''2025-06-11'')) = Ok
   \<and> snd (snd (compile_field example_lib ''transferDate'' validDate) (JStr ''2025-06-10''))
       = Fail (ValidationError (TestName ''is-date-and-valid-transferDate'')
                ''Transfer date cannot be in the past.'')"
proof -
  have 1: "type validDate = Some ''date''" and 2: "minDate validDate = Some ''today''"
    and 3: "customRule validDate = Some ''noWeekendOrHoliday''"
    by (rule validDate_attributes)+
  have 4: "''2025-06-11'' \<noteq> []" and d4: "''2025-06-10'' \<noteq> []"
    by simp_all
  have 5: "isValid (parseISO example_lib ''2025-06-11'')"
    and d5: "isValid (parseISO example_lib ''2025-06-10'')"
    and 6: "isValid (now example_lib)"
    by (simp_all add: example_dates isValid_def)
  have 7: "\<not> earlier_day (Date 2025 6 11 0) (Date 2025 6 11 34200000)"
    and d7: "earlier_day (Date 2025 6 10 0) (Date 2025 6 11 34200000)"
    by (simp_all add: earlier_day_def)
  show ?thesis
    using 1 2 3 5 6
      date_checks_order[OF 1 2 3 4 5 6, of "''transferDate''"]
      date_checks_order[OF 1 2 3 d4 d5 6, of "''transferDate''"]
    by (simp add: example_dates example_weekdays example_no_holidays 7 d7 js_or_def
        validDate_attributes formatError_plain createError_plain)
qed

text \<open>
  C1 as the claim has it fails: with the clock at Wednesday 2025-06-11, the value
  \<open>2025-06-07\<close> is a Saturday and before today; the claim's order returns the
  \<open>minDate\<close> failure, the program returns the failure of the custom rule.
\<close>

theorem date_checks_order_counterexample:
  "minDate validDate = Some ''today'' \<and> customRule validDate = Some ''noWeekendOrHoliday''
   \<and> earlier_day (parseISO example_lib ''2025-06-07'') (now example_lib)
   \<and> isWeekend (parseISO example_lib ''2025-06-07'')
   \<and> errorMessageMinDate validDate = Some ''Transfer date cannot be in the past.''
   \<and> date_validator example_lib ''transferDate'' validDate (JStr ''2025-06-07'')
       = ([], Fail (ValidationError (TestName ''is-date-and-valid-transferDate'')
                     ''Transfer date cannot be a weekend or public holiday.''))"
proof -
  have 1: "earlier_day (parseISO example_lib ''2025-06-07'') (now example_lib)"
    by (simp add: example_dates earlier_day_def)
  have 2: "isWeekend (parseISO example_lib ''2025-06-07'')"
    by (simp add: example_dates example_weekdays)
  have 3: "date_validator example_lib ''transferDate'' validDate (JStr ''2025-06-07'')
       = ([], Fail (ValidationError (TestName ''is-date-and-valid-transferDate'')
                     ''Transfer date cannot be a weekend or public holiday.''))"
    using 2
    by (simp add: date_validator_string example_dates isValid_def validDate_attributes js_or_def
        date_error_def createError_plain)
  from 1 2 3 show ?thesis
    by (simp add: validDate_attributes)
qed

section \<open>Properties of the messages\<close>



lemma mixedValidatorDefault_result:
  "mixedValidatorDefault lib fieldName rules x =
     ([], if empty_or_nullish x \<and> required rules = Some True
          then Fail (ValidationError Required
                       (formatError lib Required NoArg fieldName x (requiredMessage fieldName rules)))
          else Ok)"
  by (simp add: mixedValidatorDefault_def baseValidator_def empty_or_nullish_def is_required_def)



lemma wholeAmount_attributes:
  "type wholeAmount = Some ''number''" "required wholeAmount = Some True"
  "minValue wholeAmount = Some 1" "maxValue wholeAmount = None"
  "errorMessageMinValue wholeAmount = Some ''Amount must be at least {minValue}.''"
  "errorMessageRequired wholeAmount = None"
  by (simp_all add: wholeAmount_def emptyRule_def)


lemma digits_1: "digits (Suc 0) = ''1''"
  by code_simp

lemma digits_3: "digits 3 = ''3''"
  by code_simp







section \<open>The shape of a validation failure\<close>

text \<open>
  C2, as the program has it. Every compiled validator is a total function of the candidate
  value, and a failure is a value that is returned: a validation error with the name of
  the yup test that failed and a message. The name is that of yup's \<open>required\<close> check,
  for a required rule, or the name of the one test of the field,
  \<open>is-string-and-valid-<field>\<close>, \<open>is-number-and-valid-<field>\<close> or
  \<open>is-date-and-valid-<field>\<close>; which constraint of the rule failed is told by the
  message only. The error that \<open>validateSync\<close> throws inside the test of the field is
  caught there: the test returns the error that \<open>ctx.createError\<close> makes of its message.
\<close>

theorem validation_failure_shape:
  "(snd (snd (compile_field lib fieldName rules) value) = Ok
    \<or> (required rules = Some True
        \<and> snd (snd (compile_field lib fieldName rules) value)
            = Fail (ValidationError Required
                      (formatError lib Required NoArg fieldName value
                         (requiredMessage fieldName rules))))
    \<or> (\<exists>t m. type rules = Some t \<and> t \<in> {''string'', ''number'', ''date''}
          \<and> snd (snd (compile_field lib fieldName rules) value)
              = Fail (ValidationError (TestName (''is-'' @ t @ ''-and-valid-'' @ fieldName)) m)))
   \<and> (type rules = Some ''string'' \<and> \<not> blank_or_nullish value \<longrightarrow>
        snd (snd (compile_field lib fieldName rules) value) =
          (case string_check lib fieldName rules value of
             Inr v \<Rightarrow> Ok
           | Inl err \<Rightarrow>
               Fail (createError lib (''is-string-and-valid-'' @ fieldName) fieldName value
                       (message err))))
   \<and> (type rules = Some ''number'' \<and> \<not> empty_or_nullish value \<longrightarrow>
        snd (snd (compile_field lib fieldName rules) value) =
          (case number_check lib fieldName rules value of
             Inr v \<Rightarrow> Ok
           | Inl err \<Rightarrow>
               Fail (createError lib (''is-number-and-valid-'' @ fieldName) fieldName value
                       (message err))))
   \<and> (\<forall>s. type rules = Some ''date'' \<and> value = JStr s \<and> s \<noteq> [] \<and> isValid (parseISO lib s)
          \<and> \<not> (customRule rules = Some ''noWeekendOrHoliday''
                \<and> (isWeekend (parseISO lib s) \<or> isPublicHoliday lib (parseISO lib s)))
        \<longrightarrow>
        snd (snd (compile_field lib fieldName rules) value) =
          (case date_check lib fieldName rules value (parseISO lib s) of
             Inr v \<Rightarrow> Ok
           | Inl err \<Rightarrow>
               Fail (createError lib (''is-date-and-valid-'' @ fieldName) fieldName value
                       (message err))))"
proof -
  have sc: "snd (snd (compile_field lib fieldName rules) value) =
          (case string_check lib fieldName rules value of
             Inr v \<Rightarrow> Ok
           | Inl err \<Rightarrow>
               Fail (createError lib (''is-string-and-valid-'' @ fieldName) fieldName value
                       (message err)))"
    if "type rules = Some ''string''" and "\<not> blank_or_nullish value"
    using that
    by (simp add: compile_field_def string_validator_present caught_def split: sum.splits)
  have nc: "snd (snd (compile_field lib fieldName rules) value) =
          (case number_check lib fieldName rules value of
             Inr v \<Rightarrow> Ok
           | Inl err \<Rightarrow>
               Fail (createError lib (''is-number-and-valid-'' @ fieldName) fieldName value
                       (message err)))"
    if "type rules = Some ''number''" and "\<not> empty_or_nullish value"
    using that
    by (simp add: compile_field_def number_validator_present caught_def split: sum.splits)
  have dc: "snd (snd (compile_field lib fieldName rules) value) =
          (case date_check lib fieldName rules value (parseISO lib s) of
             Inr v \<Rightarrow> Ok
           | Inl err \<Rightarrow>
               Fail (createError lib (''is-date-and-valid-'' @ fieldName) fieldName value
                       (message err)))"
    if "type rules = Some ''date''" and "value = JStr s" and "s \<noteq> []" and "isValid (parseISO lib s)"
      and "\<not> (customRule rules = Some ''noWeekendOrHoliday''
                \<and> (isWeekend (parseISO lib s) \<or> isPublicHoliday lib (parseISO lib s)))"
    for s
    using that
    by (auto simp add: compile_field_def date_validator_string caught_def split: sum.splits)
  have shape: "snd (snd (compile_field lib fieldName rules) value) = Ok
    \<or> (required rules = Some True
        \<and> snd (snd (compile_field lib fieldName rules) value)
            = Fail (ValidationError Required
                      (formatError lib Required NoArg fieldName value
                         (requiredMessage fieldName rules))))
    \<or> (\<exists>t m. type rules = Some t \<and> t \<in> {''string'', ''number'', ''date''}
          \<and> snd (snd (compile_field lib fieldName rules) value)
              = Fail (ValidationError (TestName (''is-'' @ t @ ''-and-valid-'' @ fieldName)) m))"
  proof -
    consider (str) "type rules = Some ''string''" | (num) "type rules = Some ''number''"
      | (dat) "type rules = Some ''date''"
      | (other) "type rules \<notin> {Some ''string'', Some ''number'', Some ''date''}"
      by blast
    then show ?thesis
    proof cases
      case str
      then have c: "snd (compile_field lib fieldName rules) = string_validator lib fieldName rules"
        by (simp add: compile_field_def)
      show ?thesis
      proof (cases "blank_or_nullish value")
        case True
        then show ?thesis
          unfolding c by (simp add: string_validator_absent)
      next
        case False
        then show ?thesis
          unfolding c using str
          by (cases "string_check lib fieldName rules value")
            (simp_all add: string_validator_present caught_def createError_def)
      qed
    next
      case num
      then have c: "snd (compile_field lib fieldName rules) = number_validator lib fieldName rules"
        by (simp add: compile_field_def)
      show ?thesis
      proof (cases "empty_or_nullish value")
        case True
        then show ?thesis
          unfolding c by (simp add: number_validator_absent)
      next
        case False
        then show ?thesis
          unfolding c using num
          by (cases "number_check lib fieldName rules value")
            (simp_all add: number_validator_present caught_def createError_def)
      qed
    next
      case dat
      then have c: "snd (compile_field lib fieldName rules) = date_validator lib fieldName rules"
        by (simp add: compile_field_def)
      show ?thesis
      proof (cases "empty_or_nullish value")
        case True
        then show ?thesis
          unfolding c by (simp add: date_validator_absent)
      next
        case False
        show ?thesis
        proof (cases "\<exists>s. value = JStr s")
          case True
          then obtain s where s: "value = JStr s" by blast
          with False have n: "s \<noteq> []"
            by (auto simp add: empty_or_nullish_def)
          show ?thesis
            unfolding c s using dat
            by (cases "date_check lib fieldName rules (JStr s) (parseISO lib s)")
              (simp_all add: date_validator_string[OF n] date_error_def caught_def createError_def)
        next
          case nostr: False
          then show ?thesis
            unfolding c using dat False
            by (simp add: date_validator_other date_error_def createError_def)
        qed
      qed
    next
      case other
      then have c: "snd (compile_field lib fieldName rules) = mixedValidatorDefault lib fieldName rules"
        by (simp add: compile_field_def)
      show ?thesis
        unfolding c by (simp add: mixedValidatorDefault_result)
    qed
  qed
  from shape sc nc dc show ?thesis
    by blast
qed

lemma lengthBounds_attributes:
  "type lengthBounds = Some ''string''" "required lengthBounds = None"
  "minLength lengthBounds = Some 2" "maxLength lengthBounds = Some 3"
  "pattern lengthBounds = None" "allowedValues lengthBounds = None"
  "errorMessageMinLength lengthBounds = None" "errorMessageMaxLength lengthBounds = None"
  by (simp_all add: lengthBounds_def emptyRule_def)

lemma lengthBounds_checks:
  "string_check example_lib ''code'' lengthBounds (JStr ''a'')
     = Inl (ValidationError Min ''Minimum length is 2'')"
  "string_check example_lib ''code'' lengthBounds (JStr ''abcd'')
     = Inl (ValidationError Max ''Maximum length is 3'')"
proof -
  have t: "trim ''a'' = ''a''" "trim ''abcd'' = ''abcd''"
    by (simp_all add: trim_def isWhiteSpace_def)
  have m: "minLengthMessage lengthBounds 2 = ''Minimum length is 2''"
    "maxLengthMessage lengthBounds 3 = ''Maximum length is 3''"
    by (simp_all add: minLengthMessage_def maxLengthMessage_def js_or_def js_replace_def
        lengthBounds_attributes String_int_def digits_2 digits_3)
  show "string_check example_lib ''code'' lengthBounds (JStr ''a'')
     = Inl (ValidationError Min ''Minimum length is 2'')"
    unfolding string_check_closed
    by (simp add: trimmedValue_def t allowedValues_ok_def minLength_ok_def lengthBounds_attributes m
        formatError_plain)
  show "string_check example_lib ''code'' lengthBounds (JStr ''abcd'')
     = Inl (ValidationError Max ''Maximum length is 3'')"
    unfolding string_check_closed
    by (simp add: trimmedValue_def t allowedValues_ok_def minLength_ok_def maxLength_ok_def
        lengthBounds_attributes m formatError_plain)
qed

lemma lengthBounds_results:
  "snd (compile_field example_lib ''code'' lengthBounds) (JStr ''a'')
     = ([], Fail (ValidationError (TestName ''is-string-and-valid-code'') ''Minimum length is 2''))"
  "snd (compile_field example_lib ''code'' lengthBounds) (JStr ''abcd'')
     = ([], Fail (ValidationError (TestName ''is-string-and-valid-code'') ''Maximum length is 3''))"
proof -
  have t: "trim ''a'' = ''a''" "trim ''abcd'' = ''abcd''"
    by (simp_all add: trim_def isWhiteSpace_def)
  have c: "snd (compile_field example_lib ''code'' lengthBounds) = string_validator example_lib ''code'' lengthBounds"
    by (simp add: compile_field_def lengthBounds_attributes)
  show "snd (compile_field example_lib ''code'' lengthBounds) (JStr ''a'')
     = ([], Fail (ValidationError (TestName ''is-string-and-valid-code'') ''Minimum length is 2''))"
    unfolding c
    by (simp add: string_validator_present t lengthBounds_checks string_schema_diagnostics
        lengthBounds_attributes caught_def createError_plain)
  show "snd (compile_field example_lib ''code'' lengthBounds) (JStr ''abcd'')
     = ([], Fail (ValidationError (TestName ''is-string-and-valid-code'') ''Maximum length is 3''))"
    unfolding c
    by (simp add: string_validator_present t lengthBounds_checks string_schema_diagnostics
        lengthBounds_attributes caught_def createError_plain)
qed

theorem validation_failure_shape_witness:
  "type lengthBounds = Some ''string'' \<and> required lengthBounds \<noteq> Some True
   \<and> \<not> blank_or_nullish (JStr ''abcd'')
   \<and> string_check example_lib ''code'' lengthBounds (JStr ''abcd'')
       = Inl (ValidationError Max ''Maximum length is 3'')
   \<and> snd (snd (compile_field example_lib ''code'' lengthBounds) (JStr ''abcd''))
       = Fail (createError example_lib ''is-string-and-valid-code'' ''code'' (JStr ''abcd'')
                 ''Maximum length is 3'')
   \<and> type wholeAmount = Some ''number'' \<and> \<not> empty_or_nullish (JNum 0)
   \<and> number_check example_lib ''amount'' wholeAmount (JNum 0)
       = Inl (ValidationError Min ''Amount must be at least 1.'')
   \<and> snd (snd (compile_field example_lib ''amount'' wholeAmount) (JNum 0))
       = Fail (createError example_lib ''is-number-and-valid-amount'' ''amount'' (JNum 0)
                 ''Amount must be at least 1.'')
   \<and> type validDate = Some ''date'' \<and> isValid (parseISO example_lib ''2025-06-10'')
   \<and> \<not> isWeekend (parseISO example_lib ''2025-06-10'')
   \<and> \<not> isPublicHoliday example_lib (parseISO example_lib ''2025-06-10'')
   \<and> date_check example_lib ''transferDate'' validDate (JStr ''2025-06-10'')
         (parseISO example_lib ''2025-06-10'')
       = Inl (ValidationError Min ''Transfer date cannot be in the past.'')
   \<and> snd (snd (compile_field example_lib ''transferDate'' validDate) (JStr ''2025-06-10''))
       = Fail (createError example_lib ''is-date-and-valid-transferDate'' ''transferDate''
                 (JStr ''2025-06-10'') ''Transfer date cannot be in the past.'')"
proof -
  have 1: "type lengthBounds = Some ''string''" and 2: "required lengthBounds \<noteq> Some True"
    by (simp_all add: lengthBounds_attributes)
  have 3: "\<not> blank_or_nullish (JStr ''abcd'')"
    by (simp add: trim_def isWhiteSpace_def)
  note s = validation_failure_shape[of example_lib "''code''" lengthBounds "JStr ''abcd''"]
  note s2 = s[THEN conjunct2, THEN conjunct1, rule_format, OF conjI[OF 1 3]]
  have 4: "snd (snd (compile_field example_lib ''code'' lengthBounds) (JStr ''abcd''))
       = Fail (createError example_lib ''is-string-and-valid-code'' ''code'' (JStr ''abcd'')
                 ''Maximum length is 3'')"
    unfolding s2 lengthBounds_checks by simp
  have 5: "type wholeAmount = Some ''number''" and 6: "\<not> empty_or_nullish (JNum 0)"
    by (simp_all add: wholeAmount_attributes empty_or_nullish_def)
  have nm: "minValueMessage example_lib wholeAmount 1 = ''Amount must be at least 1.''"
    by (simp add: minValueMessage_def js_or_def js_replace_def wholeAmount_attributes example_lib_def
        String_int_def digits_1)
  have tn: "toNumber example_lib (JNum 0) = Some 0"
    by (simp add: example_lib_def)
  have 7: "number_check example_lib ''amount'' wholeAmount (JNum 0)
       = Inl (ValidationError Min ''Amount must be at least 1.'')"
    unfolding number_check_closed tn option.case
    by (simp add: minValue_ok_def wholeAmount_attributes nm formatError_plain)
  note n = validation_failure_shape[of example_lib "''amount''" wholeAmount "JNum 0"]
  note n3 = n[THEN conjunct2, THEN conjunct2, THEN conjunct1, rule_format, OF conjI[OF 5 6]]
  have 8: "snd (snd (compile_field example_lib ''amount'' wholeAmount) (JNum 0))
       = Fail (createError example_lib ''is-number-and-valid-amount'' ''amount'' (JNum 0)
                 ''Amount must be at least 1.'')"
    unfolding n3 7 by simp
  have 9: "type validDate = Some ''date''"
    by (rule validDate_attributes)
  have 10: "isValid (parseISO example_lib ''2025-06-10'')"
    and 11: "\<not> isWeekend (parseISO example_lib ''2025-06-10'')"
    and 12: "\<not> isPublicHoliday example_lib (parseISO example_lib ''2025-06-10'')"
    by (simp_all add: example_dates isValid_def example_weekdays example_no_holidays)
  have 13: "date_check example_lib ''transferDate'' validDate (JStr ''2025-06-10'')
         (parseISO example_lib ''2025-06-10'')
       = Inl (ValidationError Min ''Transfer date cannot be in the past.'')"
    unfolding date_check_closed[OF 10]
    by (simp add: example_dates validDate_attributes js_or_def formatError_plain)
  have h: "type validDate = Some ''date'' \<and> JStr ''2025-06-10'' = JStr ''2025-06-10''
      \<and> ''2025-06-10'' \<noteq> [] \<and> isValid (parseISO example_lib ''2025-06-10'')
      \<and> \<not> (customRule validDate = Some ''noWeekendOrHoliday''
            \<and> (isWeekend (parseISO example_lib ''2025-06-10'')
               \<or> isPublicHoliday example_lib (parseISO example_lib ''2025-06-10'')))"
    using 9 10 11 12 by simp
  note d = validation_failure_shape[of example_lib "''transferDate''" validDate "JStr ''2025-06-10''"]
  note d4 = d[THEN conjunct2, THEN conjunct2, THEN conjunct2, rule_format, OF h]
  have 14: "snd (snd (compile_field example_lib ''transferDate'' validDate) (JStr ''2025-06-10''))
       = Fail (createError example_lib ''is-date-and-valid-transferDate'' ''transferDate''
                 (JStr ''2025-06-10'') ''Transfer date cannot be in the past.'')"
    unfolding d4 13 by simp
  from 1 2 3 4 5 6 7 8 9 10 11 12 13 14 lengthBounds_checks(2) show ?thesis
    by simp
qed

text \<open>
  C2 as the claim has it fails: a value that is too short and a value that is too long
  fail different constraints, \<open>minLength\<close> and \<open>maxLength\<close>, and the two failures that
  the validator returns carry the same name, which is the name of neither constraint.
\<close>

theorem validation_failure_shape_counterexample:
  "failed_check (string_check example_lib ''code'' lengthBounds (JStr ''a'')) = Some Min
   \<and> failed_check (string_check example_lib ''code'' lengthBounds (JStr ''abcd'')) = Some Max
   \<and> snd (compile_field example_lib ''code'' lengthBounds) (JStr ''a'')
       = ([], Fail (ValidationError (TestName ''is-string-and-valid-code'') ''Minimum length is 2''))
   \<and> snd (compile_field example_lib ''code'' lengthBounds) (JStr ''abcd'')
       = ([], Fail (ValidationError (TestName ''is-string-and-valid-code'') ''Maximum length is 3''))"
  by (simp add: lengthBounds_checks lengthBounds_results failed_check_def)

end
